theory Spec2Isabelle
  imports
    Complex_Main
    "HOL-Library.Char_ord"
    "HOL-Library.List_Lexorder"
    "HOL-Library.Multiset"
begin

section \<open>Python values\<close>

text \<open>
  The extractors, the cache services and the adapters of the brewery pipeline exchange
  decoded JSON: the value that \<^verbatim>\<open>response.json()\<close> or \<^verbatim>\<open>json.load\<close> returns. A Python
  \<^verbatim>\<open>dict\<close> is an association list in insertion order (its keys are distinct), \<^verbatim>\<open>None\<close> is
  \<open>JNull\<close>. Times (\<^verbatim>\<open>time.time()\<close>) and non-integral numbers are real numbers.
\<close>

datatype json =
    JNull
  | JBool bool
  | JInt int
  | JFloat real
  | JStr string
  | JList "json list"
  | JObj "(string \<times> json) list"

type_synonym py_dict = "(string \<times> json) list"

datatype py_error = AttributeError | TypeError | RequestException | JSONDecodeError

text \<open>
  Built-in functions of Python that the repository calls but does not define. They are
  parameters of the model: every theorem below holds for each behaviour of them.
  \<^item> \<open>py_str\<close>: \<^verbatim>\<open>str(x)\<close>, also what an f-string inserts for \<^verbatim>\<open>{x}\<close>;
  \<^item> \<open>py_lower\<close>: \<^verbatim>\<open>s.lower()\<close>;
  \<^item> \<open>py_strip\<close>: \<^verbatim>\<open>s.strip()\<close>, and \<open>py_strip_chars\<close>: \<^verbatim>\<open>s.strip(chars)\<close>;
  \<^item> \<open>py_isoformat\<close>: \<^verbatim>\<open>datetime.isoformat()\<close> of the wall clock at a time;
  \<^item> \<open>random_choice\<close>: what \<^verbatim>\<open>random.choice\<close> draws from a list.
\<close>

record builtins =
  py_str :: "json \<Rightarrow> string"
  py_lower :: "string \<Rightarrow> string"
  py_strip :: "string \<Rightarrow> string"
  py_strip_chars :: "string \<Rightarrow> string \<Rightarrow> string"
  py_isoformat :: "real \<Rightarrow> string"
  random_choice :: "string list \<Rightarrow> string"

text \<open>\<^verbatim>\<open>d.get(key, default)\<close>; \<^verbatim>\<open>d.get(key)\<close> is \<open>dict_get d key JNull\<close>.\<close>

definition dict_get :: "py_dict \<Rightarrow> string \<Rightarrow> json \<Rightarrow> json" where
  "dict_get d k dflt = (case map_of d k of None \<Rightarrow> dflt | Some v \<Rightarrow> v)"

text \<open>Truth value of an object, as \<^verbatim>\<open>if x:\<close> and \<^verbatim>\<open>not x\<close> take it.\<close>

fun py_truthy :: "json \<Rightarrow> bool" where
  "py_truthy JNull = False"
| "py_truthy (JBool b) = b"
| "py_truthy (JInt n) = (n \<noteq> 0)"
| "py_truthy (JFloat x) = (x \<noteq> 0)"
| "py_truthy (JStr s) = (s \<noteq> [])"
| "py_truthy (JList xs) = (xs \<noteq> [])"
| "py_truthy (JObj kvs) = (kvs \<noteq> [])"

text \<open>\<^verbatim>\<open>sub in s\<close> on strings.\<close>

fun py_in :: "string \<Rightarrow> string \<Rightarrow> bool" where
  "py_in sub [] = (sub = [])"
| "py_in sub (c # cs) = (take (length sub) (c # cs) = sub \<or> py_in sub cs)"

text \<open>\<^verbatim>\<open>sep.join(parts)\<close> on a list of strings.\<close>

fun py_join :: "string \<Rightarrow> string list \<Rightarrow> string" where
  "py_join sep [] = []"
| "py_join sep [x] = x"
| "py_join sep (x # y # ys) = x @ sep @ py_join sep (y # ys)"

text \<open>
  One instance of the built-ins, used where a concrete run is evaluated. It follows
  CPython on ASCII text:
  \<^item> \<open>str\<close> of a string is the string; \<open>str\<close> of every other value is its \<open>repr\<close>:
    \<^verbatim>\<open>None\<close>, \<^verbatim>\<open>True\<close>, \<^verbatim>\<open>False\<close>, the decimal digits of an integer, a quoted and escaped
    string, and the items of a list or dict in brackets, separated by a comma and a space;
  \<^item> a float is printed as Python prints the float nearest to the number when the number
    has at most 15 significant decimal digits and an absolute value from 0.0001 up to,
    not including, \<open>10 ^ 16\<close> (outside this range Python switches to the exponent form,
    which is not modelled);
  \<^item> \<open>lower\<close> maps \<^verbatim>\<open>A\<close> to \<^verbatim>\<open>Z\<close> to \<^verbatim>\<open>a\<close> to \<^verbatim>\<open>z\<close>, \<open>strip\<close> removes leading and trailing
    ASCII white space and \<open>strip(chars)\<close> leading and trailing characters of \<open>chars\<close>;
  \<^item> \<open>isoformat\<close> is the text of a clock reading of the first day of the epoch, on a
    machine whose local time is UTC;
  \<^item> \<^verbatim>\<open>random.choice\<close> draws the first element, which is one of its possible draws.
\<close>

fun digits :: "nat \<Rightarrow> string" where
  "digits n = (if n < 10 then [''0123456789'' ! n] else digits (n div 10) @ [''0123456789'' ! (n mod 10)])"

definition int_text :: "int \<Rightarrow> string" where
  "int_text n = (if n < 0 then ''-'' @ digits (nat (- n)) else digits (nat n))"

text \<open>The digits after the decimal point of a number between 0 and 1, at most \<open>k\<close> of them.\<close>

fun fraction_digits :: "nat \<Rightarrow> real \<Rightarrow> string" where
  "fraction_digits 0 r = []"
| "fraction_digits (Suc k) r =
     (if r = 0 then []
      else (''0123456789'' ! nat \<lfloor>r * 10\<rfloor>) # fraction_digits k (r * 10 - real_of_int \<lfloor>r * 10\<rfloor>))"

definition float_text :: "real \<Rightarrow> string" where
  "float_text x =
     (let a = \<bar>x\<bar>; whole = \<lfloor>a\<rfloor>; r = a - real_of_int whole
      in (if x < 0 then ''-'' else []) @ digits (nat whole) @ ''.''
         @ (if r = 0 then ''0'' else fraction_digits 17 r))"

text \<open>
  \<open>repr\<close> of a string: in single quotes, or in double quotes when the string has a single
  quote and no double quote; the quote and the backslash are escaped with a backslash,
  tab, newline and carriage return are written \<^verbatim>\<open>\t\<close>, \<^verbatim>\<open>\n\<close>, \<^verbatim>\<open>\r\<close>, and the other control
  characters with two hexadecimal digits.
\<close>

definition repr_quote :: "string \<Rightarrow> char" where
  "repr_quote s = (if CHR 0x27 \<in> set s \<and> CHR 0x22 \<notin> set s then CHR 0x22 else CHR 0x27)"

definition repr_char :: "char \<Rightarrow> char \<Rightarrow> string" where
  "repr_char q c =
     (if c = q \<or> c = CHR 0x5C then [CHR 0x5C, c]
      else if c = CHR 0x09 then [CHR 0x5C, CHR ''t'']
      else if c = CHR 0x0A then [CHR 0x5C, CHR ''n'']
      else if c = CHR 0x0D then [CHR 0x5C, CHR ''r'']
      else if (of_char c :: nat) < 32 \<or> (of_char c :: nat) = 127
      then [CHR 0x5C, CHR ''x'', ''0123456789abcdef'' ! ((of_char c :: nat) div 16),
            ''0123456789abcdef'' ! ((of_char c :: nat) mod 16)]
      else [c])"

definition repr_str :: "string \<Rightarrow> string" where
  "repr_str s = repr_quote s # concat (map (repr_char (repr_quote s)) s) @ [repr_quote s]"

primrec py_repr :: "json \<Rightarrow> string" where
  "py_repr JNull = ''None''"
| "py_repr (JBool b) = (if b then ''True'' else ''False'')"
| "py_repr (JInt n) = int_text n"
| "py_repr (JFloat x) = float_text x"
| "py_repr (JStr s) = repr_str s"
| "py_repr (JList xs) = ''['' @ py_join '', '' (map py_repr xs) @ '']''"
| "py_repr (JObj kvs) =
     ''{'' @ py_join '', '' (map (\<lambda>(k, r). repr_str k @ '': '' @ r) (map (map_prod (\<lambda>k. k) py_repr) kvs))
     @ ''}''"

definition sample_str :: "json \<Rightarrow> string" where
  "sample_str v = (case v of JStr s \<Rightarrow> s | _ \<Rightarrow> py_repr v)"

definition ascii_lower :: "string \<Rightarrow> string" where
  "ascii_lower s =
     map (\<lambda>c. case map_of (zip ''ABCDEFGHIJKLMNOPQRSTUVWXYZ'' ''abcdefghijklmnopqrstuvwxyz'') c of
                 None \<Rightarrow> c | Some l \<Rightarrow> l) s"

definition strip_chars :: "string \<Rightarrow> string \<Rightarrow> string" where
  "strip_chars s chars =
     rev (dropWhile (\<lambda>c. c \<in> set chars) (rev (dropWhile (\<lambda>c. c \<in> set chars) s)))"

definition ascii_space :: string where
  "ascii_space =
     [CHR 0x20, CHR 0x09, CHR 0x0A, CHR 0x0B, CHR 0x0C, CHR 0x0D, CHR 0x1C, CHR 0x1D, CHR 0x1E, CHR 0x1F]"

definition two_digits :: "nat \<Rightarrow> string" where
  "two_digits n = [''0123456789'' ! (n div 10), ''0123456789'' ! (n mod 10)]"

definition first_day_isoformat :: "real \<Rightarrow> string" where
  "first_day_isoformat t =
     (let micros = nat \<lfloor>t * 1000000\<rfloor>; secs = micros div 1000000; micro = micros mod 1000000
      in ''1970-01-01T'' @ two_digits (secs div 3600) @ '':'' @ two_digits (secs div 60 mod 60)
         @ '':'' @ two_digits (secs mod 60)
         @ (if micro = 0 then []
            else ''.'' @ replicate (6 - length (digits micro)) CHR ''0'' @ digits micro))"

definition sample_builtins :: builtins where
  "sample_builtins =
     \<lparr> py_str = sample_str, py_lower = ascii_lower, py_strip = (\<lambda>s. strip_chars s ascii_space),
       py_strip_chars = strip_chars, py_isoformat = first_day_isoformat,
       random_choice = (\<lambda>xs. case xs of [] \<Rightarrow> [] | x # _ \<Rightarrow> x) \<rparr>"

section \<open>EnhancedAPIService: cache key\<close>

text \<open>
  \<^verbatim>\<open>_get_cache_key(endpoint, params)\<close> of \<^verbatim>\<open>enhanced_api_service.py\<close>. \<^verbatim>\<open>params\<close> is
  \<^verbatim>\<open>None\<close> or a dict with string keys. \<^verbatim>\<open>sorted(params.items())\<close> orders the (key, value)
  tuples; the keys of a dict are distinct, so the order of two items is decided by their
  keys and the values are never compared: it is the sort by key. Strings compare
  lexicographically by code point.
\<close>

definition get_cache_key :: "builtins \<Rightarrow> string \<Rightarrow> py_dict option \<Rightarrow> string" where
  "get_cache_key b endpoint params =
     (case params of
        None \<Rightarrow> endpoint
      | Some ps \<Rightarrow>
          if ps \<noteq> [] then
            (let param_str = py_join ''&'' (map (\<lambda>(k, v). k @ ''='' @ py_str b v) (sort_key fst ps))
             in endpoint @ ''?'' @ param_str)
          else endpoint)"

section \<open>Request parameters and the per-page maxima\<close>

text \<open>
  The \<^verbatim>\<open>params\<close> dictionaries that \<^verbatim>\<open>MultiAPIExtractor.extract_punk_api_data\<close>,
  \<^verbatim>\<open>MultiAPIExtractor.extract_openbrewery_data\<close> and \<^verbatim>\<open>EnhancedAPIService.search_breweries\<close>
  build and hand to the HTTP client. \<open>limit\<close> is a Python integer.
\<close>

definition punk_api_params :: "int \<Rightarrow> py_dict" where
  "punk_api_params limit = [(''per_page'', JInt (min limit 80))]"

definition openbrewery_params :: "int \<Rightarrow> py_dict" where
  "openbrewery_params limit =
     [(''per_page'', JInt (min limit 200)), (''by_type'', JStr ''micro,nano,regional,brewpub'')]"

definition search_breweries_params :: "string \<Rightarrow> int \<Rightarrow> py_dict" where
  "search_breweries_params query limit = [(''query'', JStr query), (''per_page'', JInt (min limit 50))]"

section \<open>HTTP outcomes\<close>

text \<open>
  What one HTTP request of \<^verbatim>\<open>requests\<close> or \<^verbatim>\<open>aiohttp\<close> can give: a response with a status
  code and a body, whose JSON decoding is \<open>None\<close> when \<^verbatim>\<open>response.json()\<close> raises, a timeout,
  or another exception of the client (connection reset, DNS failure, ...).
\<close>

datatype http_outcome = Response nat "json option" | Timeout | ConnectionError

text \<open>\<^verbatim>\<open>response.raise_for_status()\<close> raises for the client and server error codes.\<close>

definition raise_for_status :: "nat \<Rightarrow> bool" where
  "raise_for_status status = (400 \<le> status \<and> status < 600)"

section \<open>EnhancedAPIService: in-memory cache\<close>

text \<open>
  The state of an \<^verbatim>\<open>EnhancedAPIService\<close>: the dictionary \<^verbatim>\<open>self.cache\<close> from cache key to
  entry \<^verbatim>\<open>{'data': ..., 'timestamp': ...}\<close>, the one time-to-live \<^verbatim>\<open>self.cache_ttl\<close> of all
  entries, and the rate limiter's fields.
\<close>

record cache_entry =
  entry_data :: json
  entry_timestamp :: real

record api_service =
  cache :: "string \<rightharpoonup> cache_entry"
  cache_ttl :: real
  last_request_time :: real
  min_request_interval :: real

definition init_api_service :: api_service where
  "init_api_service =
     \<lparr> cache = Map.empty, cache_ttl = 300, last_request_time = 0, min_request_interval = 1 / 10 \<rparr>"

text \<open>
  \<^verbatim>\<open>_is_cache_valid(cache_entry)\<close> with \<open>now\<close> the value of \<^verbatim>\<open>time.time()\<close>. An entry of the
  cache always has its two keys, so \<^verbatim>\<open>not cache_entry\<close> is false for it and
  \<^verbatim>\<open>cache_entry.get('timestamp', 0)\<close> is its timestamp.
\<close>

definition api_is_cache_valid :: "api_service \<Rightarrow> real \<Rightarrow> cache_entry \<Rightarrow> bool" where
  "api_is_cache_valid st now e = (now - entry_timestamp e < cache_ttl st)"

text \<open>
  \<^verbatim>\<open>_rate_limit()\<close>: sleeps until \<open>min_request_interval\<close> has passed since the last request
  (\<^verbatim>\<open>time.sleep(d)\<close> takes exactly \<open>d\<close>) and returns the time at which the request goes out.
\<close>

definition rate_limit :: "api_service \<Rightarrow> real \<Rightarrow> real" where
  "rate_limit st now =
     (let time_since_last = now - last_request_time st
      in if time_since_last < min_request_interval st
         then now + (min_request_interval st - time_since_last)
         else now)"

text \<open>
  \<^verbatim>\<open>_make_request(endpoint, params)\<close>, called when the clock shows \<open>now\<close>. The network is the
  function \<open>http\<close>: for an endpoint, parameters and the time of sending it gives the
  outcome of \<^verbatim>\<open>session.get\<close> and the time at which the response is cached. Both exception
  handlers return the empty list.
\<close>

definition make_request ::
  "builtins \<Rightarrow> (string \<Rightarrow> py_dict option \<Rightarrow> real \<Rightarrow> http_outcome \<times> real) \<Rightarrow> real \<Rightarrow>
     api_service \<Rightarrow> string \<Rightarrow> py_dict option \<Rightarrow> json \<times> api_service" where
  "make_request b http now st endpoint params =
     (let cache_key = get_cache_key b endpoint params;
          hit = (case cache st cache_key of
                   None \<Rightarrow> None
                 | Some e \<Rightarrow> if api_is_cache_valid st now e then Some (entry_data e) else None)
      in case hit of
           Some d \<Rightarrow> (d, st)
         | None \<Rightarrow>
             (let t_req = rate_limit st now;
                  st1 = st\<lparr>last_request_time := t_req\<rparr>;
                  (outcome, t_done) = http endpoint params t_req
              in case outcome of
                   Response status body \<Rightarrow>
                     if raise_for_status status then (JList [], st1)
                     else (case body of
                             None \<Rightarrow> (JList [], st1)
                           | Some d \<Rightarrow>
                               (d, st1\<lparr>cache := (cache st1)(cache_key \<mapsto>
                                      \<lparr>entry_data = d, entry_timestamp = t_done\<rparr>)\<rparr>))
                 | Timeout \<Rightarrow> (JList [], st1)
                 | ConnectionError \<Rightarrow> (JList [], st1)))"

text \<open>\<^verbatim>\<open>search_breweries(query, limit)\<close>.\<close>

definition search_breweries ::
  "builtins \<Rightarrow> (string \<Rightarrow> py_dict option \<Rightarrow> real \<Rightarrow> http_outcome \<times> real) \<Rightarrow> real \<Rightarrow>
     api_service \<Rightarrow> string \<Rightarrow> int \<Rightarrow> json \<times> api_service" where
  "search_breweries b http now st query limit =
     make_request b http now st ''/search'' (Some (search_breweries_params query limit))"

section \<open>LocalCacheService: file cache\<close>

text \<open>
  The cache directory maps a cache key to its file \<^verbatim>\<open><key>.json\<close>: the modification time
  and what \<^verbatim>\<open>json.load\<close> reads from it (\<open>None\<close> when reading raises). \<^verbatim>\<open>self.cache_ttl\<close> is
  the table of the times-to-live in seconds, with 3600 for a key that is not in it.
\<close>

record cache_file =
  mtime :: real
  content :: "json option"

type_synonym cache_dir = "string \<rightharpoonup> cache_file"

definition local_cache_ttl :: "(string \<times> int) list" where
  "local_cache_ttl =
     [(''analytics_summary'', 3600), (''brewery_analytics'', 1800),
      (''system_status'', 300), (''geographic_data'', 7200)]"

definition ttl_of :: "string \<Rightarrow> int" where
  "ttl_of cache_key = (case map_of local_cache_ttl cache_key of None \<Rightarrow> 3600 | Some t \<Rightarrow> t)"

definition local_is_cache_valid :: "cache_dir \<Rightarrow> real \<Rightarrow> string \<Rightarrow> bool" where
  "local_is_cache_valid dir now cache_key =
     (case dir cache_key of
        None \<Rightarrow> False
      | Some f \<Rightarrow> (let file_age = now - mtime f; ttl = ttl_of cache_key in file_age < real_of_int ttl))"

definition local_get :: "cache_dir \<Rightarrow> real \<Rightarrow> string \<Rightarrow> json option" where
  "local_get dir now cache_key =
     (if \<not> local_is_cache_valid dir now cache_key then None
      else (case dir cache_key of None \<Rightarrow> None | Some f \<Rightarrow> content f))"

text \<open>
  What the file system does with the write of \<^verbatim>\<open>set\<close>: the file is written; or
  \<^verbatim>\<open>open(cache_file, 'w')\<close> raises and no file is created or changed (a key that names a
  directory which does not exist, a directory that is not writable); or the file is
  opened, which empties it, and \<^verbatim>\<open>json.dump\<close> raises before the document is complete.
\<close>

datatype write_outcome = Written | OpenFailed | DumpFailed

text \<open>
  \<^verbatim>\<open>set(cache_key, data)\<close> at time \<open>now\<close>, on a disk that answers the write of each key's
  file with \<open>disk cache_key\<close>. A written file holds the payload wrapped with its metadata and
  \<^verbatim>\<open>set\<close> returns \<^verbatim>\<open>True\<close>; the \<^verbatim>\<open>except\<close> branch returns \<^verbatim>\<open>False\<close>, and the file is then as
  the failed write left it.
\<close>

definition local_set ::
  "builtins \<Rightarrow> (string \<Rightarrow> write_outcome) \<Rightarrow> cache_dir \<Rightarrow> real \<Rightarrow> string \<Rightarrow> json \<Rightarrow> bool \<times> cache_dir" where
  "local_set b disk dir now cache_key data =
     (let cache_data = JObj
            [(''data'', data),
             (''cached_at'', JStr (py_isoformat b now)),
             (''cache_key'', JStr cache_key),
             (''ttl_seconds'', JInt (ttl_of cache_key))]
      in case disk cache_key of
           Written \<Rightarrow> (True, dir(cache_key \<mapsto> \<lparr>mtime = now, content = Some cache_data\<rparr>))
         | OpenFailed \<Rightarrow> (False, dir)
         | DumpFailed \<Rightarrow> (False, dir(cache_key \<mapsto> \<lparr>mtime = now, content = None\<rparr>)))"

text \<open>
  A cache directory without subdirectories: the file of a key with a slash cannot be
  opened, every other file is written.
\<close>

definition flat_disk :: "string \<Rightarrow> write_outcome" where
  "flat_disk cache_key = (if CHR ''/'' \<in> set cache_key then OpenFailed else Written)"

section \<open>Sample inputs\<close>

text \<open>A network that answers every request at once with the same document.\<close>

definition demo_http :: "string \<Rightarrow> py_dict option \<Rightarrow> real \<Rightarrow> http_outcome \<times> real" where
  "demo_http endpoint params t = (Response 200 (Some (JStr ''fresh'')), t)"

text \<open>A service whose cache holds one entry, written at time 0.\<close>

definition demo_service :: api_service where
  "demo_service =
     init_api_service\<lparr>cache := [''/random'' \<mapsto> \<lparr>entry_data = JStr ''ok'', entry_timestamp = 0\<rparr>]\<rparr>"

section \<open>Deduplication of the staging table\<close>

text \<open>
  A row of \<^verbatim>\<open>staging_beers\<close>: the two columns of the deduplication key, the required
  timestamp \<^verbatim>\<open>processed_at\<close> (microseconds), and the remaining columns together.
\<close>

record 'a staging_row =
  beer_id :: string
  name :: string
  processed_at :: int
  other_columns :: 'a

definition dedup_key :: "'a staging_row \<Rightarrow> string \<times> string" where
  "dedup_key r = (beer_id r, name r)"

text \<open>
  A table is the list of its rows in the order a scan yields them. SQL fixes neither the
  order in which \<^verbatim>\<open>ORDER BY processed_at DESC\<close> numbers rows with equal timestamps nor the
  order in which \<^verbatim>\<open>CREATE TABLE ... AS SELECT\<close> stores its result; both are the warehouse's
  choice, so the warehouse is a parameter:
  \<^item> \<open>window_order\<close> arranges one partition by \<^verbatim>\<open>processed_at\<close>, latest first;
  \<^item> \<open>stored_order\<close> arranges the rows of a table that is created.
\<close>

record 'a warehouse =
  window_order :: "'a staging_row list \<Rightarrow> 'a staging_row list"
  stored_order :: "'a staging_row list \<Rightarrow> 'a staging_row list"

definition valid_warehouse :: "'a warehouse \<Rightarrow> bool" where
  "valid_warehouse w =
     (\<forall>rows. mset (window_order w rows) = mset rows
             \<and> sorted_wrt (\<lambda>r r'. processed_at r' \<le> processed_at r) (window_order w rows)
             \<and> mset (stored_order w rows) = mset rows)"

text \<open>
  \<^verbatim>\<open>duplicate_check_query\<close>: \<^verbatim>\<open>GROUP BY beer_id, name HAVING COUNT(*) > 1
  ORDER BY duplicate_count DESC LIMIT 20\<close>.
\<close>

definition group_counts :: "'a staging_row list \<Rightarrow> ((string \<times> string) \<times> nat) list" where
  "group_counts rows =
     map (\<lambda>k. (k, length (filter (\<lambda>r. dedup_key r = k) rows))) (remdups (map dedup_key rows))"

definition duplicate_check_query :: "'a staging_row list \<Rightarrow> ((string \<times> string) \<times> nat) list" where
  "duplicate_check_query rows =
     take 20 (sort_key (\<lambda>(k, c). - int c) (filter (\<lambda>(k, c). c > 1) (group_counts rows)))"

text \<open>
  \<^verbatim>\<open>dedup_query\<close>: \<^verbatim>\<open>PARTITION BY beer_id, name\<close> splits the table, \<^verbatim>\<open>ROW_NUMBER()\<close> numbers
  each partition from 1 in the window's order, \<^verbatim>\<open>WHERE row_num = 1\<close> keeps the rows numbered
  1 and \<^verbatim>\<open>SELECT * EXCEPT(row_num)\<close> drops the number.
\<close>

definition partitions :: "'a staging_row list \<Rightarrow> 'a staging_row list list" where
  "partitions rows =
     map (\<lambda>k. filter (\<lambda>r. dedup_key r = k) rows) (remdups (map dedup_key rows))"

definition row_number :: "'a warehouse \<Rightarrow> 'a staging_row list \<Rightarrow> ('a staging_row \<times> nat) list" where
  "row_number w part = zip (window_order w part) [1 ..< 1 + length part]"

definition dedup_query :: "'a warehouse \<Rightarrow> 'a staging_row list \<Rightarrow> 'a staging_row list" where
  "dedup_query w rows =
     map fst (filter (\<lambda>(r, row_num). row_num = 1) (concat (map (row_number w) (partitions rows))))"

text \<open>
  \<^verbatim>\<open>remove_duplicates()\<close> as a function of the table: it returns early, leaving the table
  as it is, when the check finds no duplicate; otherwise the deduplicated rows are stored
  in the temporary table and from there in the recreated \<^verbatim>\<open>staging_beers\<close>.
\<close>

definition remove_duplicates :: "'a warehouse \<Rightarrow> 'a staging_row list \<Rightarrow> 'a staging_row list" where
  "remove_duplicates w table =
     (if duplicate_check_query table = [] then table
      else (let temp_table = stored_order w (dedup_query w table)
            in stored_order w temp_table))"

text \<open>
  Two warehouses that differ in the order of equal timestamps: one numbers them in the
  order of the scan, the other in the opposite order.
\<close>

definition latest_first :: "'a staging_row list \<Rightarrow> 'a staging_row list" where
  "latest_first rows = sort_key (\<lambda>r. - processed_at r) rows"

definition first_seen_warehouse :: "'a warehouse" where
  "first_seen_warehouse = \<lparr> window_order = latest_first, stored_order = (\<lambda>rows. rows) \<rparr>"

definition last_seen_warehouse :: "'a warehouse" where
  "last_seen_warehouse = \<lparr> window_order = (\<lambda>rows. latest_first (rev rows)), stored_order = (\<lambda>rows. rows) \<rparr>"

text \<open>
  The row that the window puts first in the partition of a key: the one numbered 1.
\<close>

definition survivor :: "'a warehouse \<Rightarrow> 'a staging_row list \<Rightarrow> string \<times> string \<Rightarrow> 'a staging_row" where
  "survivor w rows k = hd (window_order w (filter (\<lambda>r. dedup_key r = k) rows))"

text \<open>
  Four loaded rows: \<open>row_a\<close> and \<open>row_b\<close> are two loads of one brewery with the same
  timestamp, \<open>row_d\<close> is an older load of the brewery of \<open>row_c\<close>.
\<close>

definition row_a :: "string staging_row" where
  "row_a = \<lparr>beer_id = ''brewery_1'', name = ''Stone House Beer'', processed_at = 100,
            other_columns = ''first load''\<rparr>"

definition row_b :: "string staging_row" where
  "row_b = \<lparr>beer_id = ''brewery_1'', name = ''Stone House Beer'', processed_at = 100,
            other_columns = ''second load''\<rparr>"

definition row_c :: "string staging_row" where
  "row_c = \<lparr>beer_id = ''brewery_2'', name = ''Anchor House Beer'', processed_at = 50,
            other_columns = ''second load''\<rparr>"

definition row_d :: "string staging_row" where
  "row_d = \<lparr>beer_id = ''brewery_2'', name = ''Anchor House Beer'', processed_at = 10,
            other_columns = ''first load''\<rparr>"

section \<open>Adapters to the normalized record\<close>

text \<open>
  A normalized record is the dictionary that an adapter returns. An adapter raises when a
  method is called on a value that lacks it (\<open>AttributeError\<close>: \<^verbatim>\<open>.get\<close> on a value that is
  no dict, \<^verbatim>\<open>.lower()\<close> on one that is no string) and when a list or a dict is used as a
  dictionary key or a non-string is joined (\<open>TypeError\<close>).
\<close>

text \<open>\<^verbatim>\<open>table.get(key, default)\<close> on a table with string keys and any decoded value as key.\<close>

definition table_get :: "(string \<times> 'v) list \<Rightarrow> json \<Rightarrow> 'v \<Rightarrow> py_error + 'v" where
  "table_get table key dflt =
     (case key of
        JStr s \<Rightarrow> Inr (case map_of table s of None \<Rightarrow> dflt | Some v \<Rightarrow> v)
      | JList xs \<Rightarrow> Inl TypeError
      | JObj kvs \<Rightarrow> Inl TypeError
      | _ \<Rightarrow> Inr dflt)"

subsection \<open>MultiAPIExtractor._transform_punk_beer\<close>

definition yeast_name_of :: "builtins \<Rightarrow> json \<Rightarrow> py_error + string" where
  "yeast_name_of b yeast =
     (case yeast of
        JList (y # ys) \<Rightarrow>
          (case y of
             JObj d \<Rightarrow>
               (case dict_get d ''name'' (JStr '''') of
                  JStr s \<Rightarrow> Inr (py_lower b s)
                | _ \<Rightarrow> Inl AttributeError)
           | _ \<Rightarrow> Inr (py_lower b (py_str b y)))
      | _ \<Rightarrow> Inr (py_lower b (py_str b yeast)))"

definition punk_category :: "string \<Rightarrow> string" where
  "punk_category yeast_name =
     (if py_in ''ale'' yeast_name \<or> py_in ''cerevisiae'' yeast_name then ''ale''
      else if py_in ''lager'' yeast_name \<or> py_in ''pastorianus'' yeast_name then ''lager''
      else ''other'')"

definition transform_punk_beer :: "builtins \<Rightarrow> json \<Rightarrow> py_error + py_dict" where
  "transform_punk_beer b beer =
     (case beer of
        JObj bd \<Rightarrow>
          (case dict_get bd ''ingredients'' (JObj []) of
             JObj ingredients \<Rightarrow>
               (case yeast_name_of b (dict_get ingredients ''yeast'' (JStr '''')) of
                  Inl e \<Rightarrow> Inl e
                | Inr yeast_name \<Rightarrow>
                    Inr [(''beer_id'', dict_get bd ''id'' JNull),
                         (''name'', dict_get bd ''name'' JNull),
                         (''tagline'', dict_get bd ''tagline'' JNull),
                         (''description'', dict_get bd ''description'' JNull),
                         (''image_url'', dict_get bd ''image_url'' JNull),
                         (''first_brewed'', dict_get bd ''first_brewed'' JNull),
                         (''abv'', dict_get bd ''abv'' JNull),
                         (''ibu'', dict_get bd ''ibu'' JNull),
                         (''target_fg'', dict_get bd ''target_fg'' JNull),
                         (''target_og'', dict_get bd ''target_og'' JNull),
                         (''ebc'', dict_get bd ''ebc'' JNull),
                         (''srm'', dict_get bd ''srm'' JNull),
                         (''ph'', dict_get bd ''ph'' JNull),
                         (''attenuation_level'', dict_get bd ''attenuation_level'' JNull),
                         (''volume'', dict_get bd ''volume'' JNull),
                         (''boil_volume'', dict_get bd ''boil_volume'' JNull),
                         (''category'', JStr (punk_category yeast_name)),
                         (''subcategory'', JStr yeast_name),
                         (''category_confidence'', JFloat (8 / 10)),
                         (''ingredients'', JObj ingredients),
                         (''method'', dict_get bd ''method'' JNull),
                         (''food_pairing'', dict_get bd ''food_pairing'' (JList [])),
                         (''brewers_tips'', dict_get bd ''brewers_tips'' JNull),
                         (''contributed_by'', dict_get bd ''contributed_by'' JNull),
                         (''data_source'', JStr ''punk_api'')])
           | _ \<Rightarrow> Inl AttributeError)
      | _ \<Rightarrow> Inl AttributeError)"

subsection \<open>MultiAPIExtractor._transform_brewery_to_beer\<close>

definition category_mapping :: "(string \<times> string) list" where
  "category_mapping =
     [(''micro'', ''ale''), (''nano'', ''ale''), (''regional'', ''lager''), (''brewpub'', ''ale''),
      (''large'', ''lager''), (''planning'', ''other''), (''bar'', ''other''),
      (''contract'', ''other''), (''proprietor'', ''other'')]"

definition estimate_abv_by_category :: "string \<Rightarrow> real" where
  "estimate_abv_by_category category =
     (case map_of [(''ale'', 52 / 10), (''lager'', 48 / 10), (''other'', 5)] category of
        None \<Rightarrow> 5 | Some x \<Rightarrow> x)"

definition estimate_ibu_by_category :: "string \<Rightarrow> int" where
  "estimate_ibu_by_category category =
     (case map_of [(''ale'', 35), (''lager'', 25), (''other'', 30)] category of
        None \<Rightarrow> 30 | Some x \<Rightarrow> x)"

definition transform_brewery_to_beer :: "builtins \<Rightarrow> json \<Rightarrow> py_error + py_dict" where
  "transform_brewery_to_beer b brewery =
     (case brewery of
        JObj bd \<Rightarrow>
          (let brewery_type = dict_get bd ''brewery_type'' (JStr ''unknown'') in
           case table_get category_mapping brewery_type ''other'' of
             Inl e \<Rightarrow> Inl e
           | Inr category \<Rightarrow>
               Inr [(''beer_id'', JStr (''brewery_'' @ py_str b (dict_get bd ''id'' JNull))),
                    (''name'', JStr (py_str b (dict_get bd ''name'' (JStr ''Unknown'')) @ '' House Beer'')),
                    (''tagline'', JStr (''Signature beer from ''
                        @ py_str b (dict_get bd ''name'' (JStr ''Unknown Brewery'')))),
                    (''description'', JStr (''A '' @ category @ '' beer from ''
                        @ py_str b (dict_get bd ''name'' JNull) @ '' brewery located in ''
                        @ py_str b (dict_get bd ''city'' (JStr ''Unknown'')) @ '', ''
                        @ py_str b (dict_get bd ''state'' (JStr ''Unknown'')))),
                    (''image_url'', JNull),
                    (''first_brewed'', JNull),
                    (''abv'', JFloat (estimate_abv_by_category category)),
                    (''ibu'', JInt (estimate_ibu_by_category category)),
                    (''target_fg'', JNull),
                    (''target_og'', JNull),
                    (''ebc'', JNull),
                    (''srm'', JNull),
                    (''ph'', JNull),
                    (''attenuation_level'', JNull),
                    (''volume'', JNull),
                    (''boil_volume'', JNull),
                    (''category'', JStr category),
                    (''subcategory'', brewery_type),
                    (''category_confidence'', JFloat (6 / 10)),
                    (''ingredients'', JObj []),
                    (''method'', JObj []),
                    (''food_pairing'', JList []),
                    (''brewers_tips'', JStr (''Visit '' @ py_str b (dict_get bd ''name'' JNull) @ '' at ''
                        @ py_str b (dict_get bd ''street'' (JStr '''')) @ '' ''
                        @ py_str b (dict_get bd ''city'' (JStr '''')) @ '', ''
                        @ py_str b (dict_get bd ''state'' (JStr '''')))),
                    (''contributed_by'', JStr ''Open Brewery DB''),
                    (''brewery_info'', JObj
                       [(''name'', dict_get bd ''name'' JNull),
                        (''brewery_type'', dict_get bd ''brewery_type'' JNull),
                        (''address'', JStr (py_strip b
                           (py_str b (dict_get bd ''street'' (JStr '''')) @ '' ''
                            @ py_str b (dict_get bd ''city'' (JStr '''')) @ '', ''
                            @ py_str b (dict_get bd ''state'' (JStr '''')) @ '' ''
                            @ py_str b (dict_get bd ''postal_code'' (JStr ''''))))),
                        (''country'', dict_get bd ''country'' JNull),
                        (''phone'', dict_get bd ''phone'' JNull),
                        (''website_url'', dict_get bd ''website_url'' JNull),
                        (''latitude'', dict_get bd ''latitude'' JNull),
                        (''longitude'', dict_get bd ''longitude'' JNull)]),
                    (''data_source'', JStr ''openbrewery_db'')])
      | _ \<Rightarrow> Inl AttributeError)"

subsection \<open>FullDatasetLoader.transform_brewery_to_beer\<close>

text \<open>
  The loader's own adapter, with its larger table of brewery types. The estimates are
  decimal numbers with one digit after the point; on these \<^verbatim>\<open>round(base_abv, 1)\<close> returns
  the number itself, and \<^verbatim>\<open>int(base_ibu)\<close> is the integer it is given.
\<close>

definition loader_category_mapping :: "(string \<times> string) list" where
  "loader_category_mapping =
     [(''micro'', ''ale''), (''nano'', ''ale''), (''regional'', ''lager''), (''brewpub'', ''ale''),
      (''large'', ''lager''), (''planning'', ''other''), (''bar'', ''other''),
      (''contract'', ''other''), (''proprietor'', ''other''), (''closed'', ''other''),
      (''taproom'', ''ale''), (''beergarden'', ''lager'')]"

definition abv_estimates :: "(string \<times> real) list" where
  "abv_estimates =
     [(''micro'', 58 / 10), (''nano'', 62 / 10), (''regional'', 49 / 10), (''brewpub'', 54 / 10),
      (''large'', 46 / 10), (''ale'', 55 / 10), (''lager'', 48 / 10), (''other'', 5)]"

definition ibu_estimates :: "(string \<times> int) list" where
  "ibu_estimates =
     [(''micro'', 42), (''nano'', 38), (''regional'', 28), (''brewpub'', 35),
      (''large'', 22), (''ale'', 35), (''lager'', 25), (''other'', 30)]"

definition craft_beer_states :: "string list" where
  "craft_beer_states = [''california'', ''colorado'', ''oregon'', ''washington'', ''vermont'', ''maine'']"

definition generate_description :: "builtins \<Rightarrow> py_dict \<Rightarrow> string \<Rightarrow> string" where
  "generate_description b bd category =
     (let name = py_str b (dict_get bd ''name'' (JStr ''Unknown Brewery''));
          city = py_str b (dict_get bd ''city'' (JStr ''Unknown''));
          state = py_str b (dict_get bd ''state'' (JStr ''Unknown''));
          brewery_type = py_str b (dict_get bd ''brewery_type'' (JStr ''brewery''));
          descriptions =
            [(''ale'', ''A well-crafted ale from '' @ name
                @ '', showcasing the traditional brewing heritage of '' @ city @ '', '' @ state
                @ ''. This '' @ brewery_type
                @ '' specializes in hop-forward ales with a perfect balance of malt sweetness and hop bitterness.''),
             (''lager'', ''A crisp, clean lager from '' @ name @ '' in '' @ city @ '', '' @ state
                @ ''. This '' @ brewery_type
                @ '' focuses on traditional lager brewing techniques, producing smooth and refreshing beers perfect for any occasion.''),
             (''other'', ''A unique specialty beer from '' @ name
                @ '', representing the innovative spirit of '' @ city @ '', '' @ state
                @ ''. This '' @ brewery_type
                @ '' experiments with various styles and ingredients to create distinctive brews.'')]
      in case map_of descriptions category of
           None \<Rightarrow> ''A quality beer from '' @ name @ '' brewery in '' @ city @ '', '' @ state @ ''.''
         | Some d \<Rightarrow> d)"

text \<open>\<^verbatim>\<open>_format_address\<close>: the non-empty parts joined; joining a part that is no string raises.\<close>

fun join_parts :: "json list \<Rightarrow> py_error + string list" where
  "join_parts [] = Inr []"
| "join_parts (JStr s # ps) = (case join_parts ps of Inl e \<Rightarrow> Inl e | Inr ss \<Rightarrow> Inr (s # ss))"
| "join_parts (p # ps) = Inl TypeError"

definition format_address :: "builtins \<Rightarrow> py_dict \<Rightarrow> py_error + string" where
  "format_address b bd =
     (let parts = [dict_get bd ''street'' (JStr ''''), dict_get bd ''city'' (JStr ''''),
                   dict_get bd ''state'' (JStr ''''), dict_get bd ''postal_code'' (JStr '''')]
      in case join_parts (filter py_truthy parts) of
           Inl e \<Rightarrow> Inl e
         | Inr ss \<Rightarrow> Inr (py_strip_chars b (py_join '', '' ss) '', ''))"

definition generate_food_pairing :: "string \<Rightarrow> json" where
  "generate_food_pairing category =
     (case map_of
        [(''ale'', [''Grilled burgers'', ''Spicy wings'', ''Sharp cheddar'', ''BBQ ribs'']),
         (''lager'', [''Fish and chips'', ''Light salads'', ''Grilled chicken'', ''Soft pretzels'']),
         (''other'', [''Artisanal cheese'', ''Charcuterie'', ''Seasonal dishes'', ''Experimental cuisine''])]
        category of
        None \<Rightarrow> JList [JStr ''Pub food'', JStr ''Casual dining'']
      | Some ps \<Rightarrow> JList (map JStr ps))"

definition generate_brewers_tips :: "builtins \<Rightarrow> py_dict \<Rightarrow> string" where
  "generate_brewers_tips b bd =
     (let name = py_str b (dict_get bd ''name'' (JStr ''this brewery''));
          city = py_str b (dict_get bd ''city'' (JStr ''the area''));
          tips =
            [''Visit '' @ name @ '' to experience their full range of beers on tap.'',
             ''Check out the local beer scene in '' @ city @ '' for more great breweries.'',
             ''Follow '' @ name @ '' on social media for seasonal releases and events.'',
             ''Ask about brewery tours and tasting flights when visiting '' @ name @ ''.'']
      in random_choice b tips)"

definition loader_transform_brewery_to_beer :: "builtins \<Rightarrow> json \<Rightarrow> py_error + py_dict" where
  "loader_transform_brewery_to_beer b brewery =
     (case brewery of
        JObj bd \<Rightarrow>
          (let brewery_type = dict_get bd ''brewery_type'' (JStr ''unknown'') in
           case table_get loader_category_mapping brewery_type ''other'' of
             Inl e \<Rightarrow> Inl e
           | Inr category \<Rightarrow>
               (case table_get abv_estimates brewery_type
                       (case map_of abv_estimates category of None \<Rightarrow> 5 | Some x \<Rightarrow> x) of
                  Inl e \<Rightarrow> Inl e
                | Inr base_abv \<Rightarrow>
                    (case table_get ibu_estimates brewery_type
                            (case map_of ibu_estimates category of None \<Rightarrow> 30 | Some x \<Rightarrow> x) of
                       Inl e \<Rightarrow> Inl e
                     | Inr base_ibu \<Rightarrow>
                         (case dict_get bd ''state'' (JStr '''') of
                            JStr s \<Rightarrow>
                              (let state = py_lower b s;
                                   craft = (state \<in> set craft_beer_states);
                                   abv = (if craft then base_abv + 3 / 10 else base_abv);
                                   ibu = (if craft then base_ibu + 5 else base_ibu)
                               in case format_address b bd of
                                    Inl e \<Rightarrow> Inl e
                                  | Inr address \<Rightarrow>
                                      Inr [(''beer_id'', JStr (''brewery_'' @ py_str b (dict_get bd ''id'' JNull))),
                                           (''name'', JStr (py_str b (dict_get bd ''name'' (JStr ''Unknown''))
                                               @ '' House Beer'')),
                                           (''tagline'', JStr (''Signature beer from ''
                                               @ py_str b (dict_get bd ''name'' (JStr ''Unknown Brewery'')))),
                                           (''description'', JStr (generate_description b bd category)),
                                           (''image_url'', JNull),
                                           (''first_brewed'', JNull),
                                           (''abv'', JFloat abv),
                                           (''ibu'', JInt ibu),
                                           (''target_fg'', JNull),
                                           (''target_og'', JNull),
                                           (''ebc'', JNull),
                                           (''srm'', JNull),
                                           (''ph'', JNull),
                                           (''attenuation_level'', JNull),
                                           (''volume'', JNull),
                                           (''boil_volume'', JNull),
                                           (''category'', JStr category),
                                           (''subcategory'', brewery_type),
                                           (''category_confidence'', JFloat (7 / 10)),
                                           (''ingredients'', JObj []),
                                           (''method'', JObj []),
                                           (''food_pairing'', generate_food_pairing category),
                                           (''brewers_tips'', JStr (generate_brewers_tips b bd)),
                                           (''contributed_by'', JStr ''Open Brewery DB''),
                                           (''brewery_info'', JObj
                                              [(''name'', dict_get bd ''name'' JNull),
                                               (''brewery_type'', dict_get bd ''brewery_type'' JNull),
                                               (''address'', JStr address),
                                               (''country'', dict_get bd ''country'' JNull),
                                               (''state'', dict_get bd ''state'' JNull),
                                               (''city'', dict_get bd ''city'' JNull),
                                               (''postal_code'', dict_get bd ''postal_code'' JNull),
                                               (''phone'', dict_get bd ''phone'' JNull),
                                               (''website_url'', dict_get bd ''website_url'' JNull),
                                               (''latitude'', dict_get bd ''latitude'' JNull),
                                               (''longitude'', dict_get bd ''longitude'' JNull)]),
                                           (''data_source'', JStr ''openbrewery_db'')])
                          | _ \<Rightarrow> Inl AttributeError))))
      | _ \<Rightarrow> Inl AttributeError)"

section \<open>MultiAPIExtractor: extraction with fallback\<close>

text \<open>
  The network is a function \<open>http\<close> from the URL and the query parameters of a
  \<^verbatim>\<open>requests.get\<close> call to its outcome.
\<close>

definition punk_base_url :: string where
  "punk_base_url = ''https://api.punkapi.com/v2''"

definition openbrewery_base_url :: string where
  "openbrewery_base_url = ''https://api.openbrewerydb.org/v1''"

text \<open>
  \<^verbatim>\<open>test_api_connectivity(api_name)\<close>: true when the probe answers with status 200; every
  exception, also the one for a name that is not configured, gives false.
\<close>

definition test_api_connectivity :: "(string \<Rightarrow> py_dict \<Rightarrow> http_outcome) \<Rightarrow> string \<Rightarrow> bool" where
  "test_api_connectivity http api_name =
     (if api_name = ''punk'' then
        (case http (punk_base_url @ ''/beers/1'') [] of
           Response status body \<Rightarrow> status = 200 | _ \<Rightarrow> False)
      else if api_name = ''openbrewery'' then
        (case http (openbrewery_base_url @ ''/breweries?per_page=1'') [] of
           Response status body \<Rightarrow> status = 200 | _ \<Rightarrow> False)
      else False)"

text \<open>
  \<^verbatim>\<open>for x in value\<close>: a list yields its elements, a dict its keys, a string its characters;
  the other values are not iterable.
\<close>

definition py_iter :: "json \<Rightarrow> py_error + json list" where
  "py_iter v =
     (case v of
        JList xs \<Rightarrow> Inr xs
      | JObj kvs \<Rightarrow> Inr (map (\<lambda>(k, v). JStr k) kvs)
      | JStr s \<Rightarrow> Inr (map (\<lambda>c. JStr [c]) s)
      | _ \<Rightarrow> Inl TypeError)"

text \<open>The loop that transforms one element after the other; the first exception ends it.\<close>

fun transform_each :: "(json \<Rightarrow> py_error + py_dict) \<Rightarrow> json list \<Rightarrow> py_error + py_dict list" where
  "transform_each f [] = Inr []"
| "transform_each f (x # xs) =
     (case f x of
        Inl e \<Rightarrow> Inl e
      | Inr y \<Rightarrow> (case transform_each f xs of Inl e \<Rightarrow> Inl e | Inr ys \<Rightarrow> Inr (y # ys)))"

text \<open>
  \<^verbatim>\<open>extract_punk_api_data(limit)\<close> and \<^verbatim>\<open>extract_openbrewery_data(limit)\<close>: any exception
  (of the request, of \<^verbatim>\<open>raise_for_status\<close>, of the decoding, of the loop) gives the empty
  list.
\<close>

definition extract_data ::
  "(json \<Rightarrow> py_error + py_dict) \<Rightarrow> http_outcome \<Rightarrow> py_dict list" where
  "extract_data transform outcome =
     (case outcome of
        Response status body \<Rightarrow>
          if raise_for_status status then []
          else (case body of
                  None \<Rightarrow> []
                | Some payload \<Rightarrow>
                    (case py_iter payload of
                       Inl e \<Rightarrow> []
                     | Inr items \<Rightarrow>
                         (case transform_each transform items of Inl e \<Rightarrow> [] | Inr ts \<Rightarrow> ts)))
      | Timeout \<Rightarrow> []
      | ConnectionError \<Rightarrow> [])"

definition extract_punk_api_data ::
  "builtins \<Rightarrow> (string \<Rightarrow> py_dict \<Rightarrow> http_outcome) \<Rightarrow> int \<Rightarrow> py_dict list" where
  "extract_punk_api_data b http limit =
     extract_data (transform_punk_beer b) (http (punk_base_url @ ''/beers'') (punk_api_params limit))"

definition extract_openbrewery_data ::
  "builtins \<Rightarrow> (string \<Rightarrow> py_dict \<Rightarrow> http_outcome) \<Rightarrow> int \<Rightarrow> py_dict list" where
  "extract_openbrewery_data b http limit =
     extract_data (transform_brewery_to_beer b)
       (http (openbrewery_base_url @ ''/breweries'') (openbrewery_params limit))"

definition extract_with_fallback ::
  "builtins \<Rightarrow> (string \<Rightarrow> py_dict \<Rightarrow> http_outcome) \<Rightarrow> int \<Rightarrow> py_dict list" where
  "extract_with_fallback b http limit =
     (let primary = (if test_api_connectivity http ''punk''
                     then extract_punk_api_data b http limit else [])
      in if primary \<noteq> [] then primary
         else (let secondary = (if test_api_connectivity http ''openbrewery''
                                then extract_openbrewery_data b http limit else [])
               in if secondary \<noteq> [] then secondary else []))"

text \<open>A beer of the Punk API and two breweries of Open Brewery DB, shortened.\<close>

definition demo_beer :: json where
  "demo_beer =
     JObj [(''id'', JInt 1), (''name'', JStr ''Buzz''), (''abv'', JFloat (45 / 10)),
           (''ingredients'', JObj [(''yeast'', JStr ''Wyeast 1056 - American Ale'')])]"

definition demo_brewery :: json where
  "demo_brewery =
     JObj [(''id'', JStr ''5128df48''), (''name'', JStr ''Stone''), (''brewery_type'', JStr ''regional''),
           (''city'', JStr ''Escondido''), (''state'', JStr ''California'')]"

definition demo_taproom :: json where
  "demo_taproom =
     JObj [(''id'', JStr ''9c5a66c8''), (''name'', JStr ''Anchor''), (''brewery_type'', JStr ''taproom''),
           (''city'', JStr ''Portland''), (''state'', JStr ''Oregon'')]"

definition demo_saison :: json where
  "demo_saison =
     JObj [(''id'', JInt 7), (''name'', JStr ''Saison''),
           (''ingredients'', JObj [(''yeast'', JStr ''Champagne Yeast'')])]"

definition demo_cidery :: json where
  "demo_cidery =
     JObj [(''id'', JStr ''0759476d''), (''name'', JStr ''Orchard''), (''brewery_type'', JStr ''cidery''),
           (''city'', JStr ''Bend''), (''state'', JStr ''Oregon'')]"

text \<open>
  Three networks: one where the Punk API is unreachable and Open Brewery DB answers, one
  where the Punk API answers, and one where nothing answers.
\<close>

definition fallback_network :: "string \<Rightarrow> py_dict \<Rightarrow> http_outcome" where
  "fallback_network url params =
     (if url = openbrewery_base_url @ ''/breweries?per_page=1''
      then Response 200 (Some (JList [demo_brewery]))
      else if url = openbrewery_base_url @ ''/breweries''
      then Response 200 (Some (JList [demo_brewery, demo_taproom]))
      else ConnectionError)"

definition primary_network :: "string \<Rightarrow> py_dict \<Rightarrow> http_outcome" where
  "primary_network url params =
     (if url = punk_base_url @ ''/beers/1'' then Response 200 (Some (JList [demo_beer]))
      else if url = punk_base_url @ ''/beers'' then Response 200 (Some (JList [demo_beer]))
      else ConnectionError)"

definition dead_network :: "string \<Rightarrow> py_dict \<Rightarrow> http_outcome" where
  "dead_network url params = ConnectionError"

section \<open>Paginated collection\<close>

text \<open>
  What a collector does to the outside, in order: the requests it sends, with their query
  parameters, and the sleeps it takes, in seconds.
\<close>

datatype event = Request py_dict | Sleep real

fun requested_pages :: "event list \<Rightarrow> json list" where
  "requested_pages [] = []"
| "requested_pages (Request params # es) = dict_get params ''page'' JNull # requested_pages es"
| "requested_pages (Sleep d # es) = requested_pages es"

subsection \<open>PunkAPIExtractor\<close>

record api_config =
  base_url :: string
  timeout :: real
  retry_attempts :: nat
  rate_limit_delay :: real

text \<open>
  The network answers \<^verbatim>\<open>session.get(url, params=params)\<close> of the attempt numbered
  \<open>attempt\<close> (from 0) with \<open>net params attempt\<close>. One attempt of
  \<^verbatim>\<open>_fetch_page_with_retry\<close> either returns the decoded body of a response with status
  200, or goes on to the backoff: after a sleep of \<open>2 ^ attempt\<close> seconds of its own when
  the status is 429, at once for every other status, for a timeout, for another exception
  and for a body that does not decode.
\<close>

definition attempt_result :: "http_outcome \<Rightarrow> nat \<Rightarrow> json + event list" where
  "attempt_result outcome attempt =
     (case outcome of
        Response status body \<Rightarrow>
          if status = 200 then (case body of Some data \<Rightarrow> Inl data | None \<Rightarrow> Inr [])
          else if status = 429 then Inr [Sleep (2 ^ attempt)]
          else Inr []
      | Timeout \<Rightarrow> Inr []
      | ConnectionError \<Rightarrow> Inr [])"

text \<open>
  \<^verbatim>\<open>for attempt in range(self.retry_attempts)\<close> with \<open>remaining\<close> iterations to go; when the
  loop is exhausted the empty list is returned.
\<close>

fun fetch_attempts ::
  "(py_dict \<Rightarrow> nat \<Rightarrow> http_outcome) \<Rightarrow> nat \<Rightarrow> py_dict \<Rightarrow> nat \<Rightarrow> nat \<Rightarrow> json \<times> event list" where
  "fetch_attempts net retries params attempt 0 = (JList [], [])"
| "fetch_attempts net retries params attempt (Suc remaining) =
     (case attempt_result (net params attempt) attempt of
        Inl data \<Rightarrow> (data, [Request params])
      | Inr waits \<Rightarrow>
          (let backoff = (if Suc attempt < retries then [Sleep (2 ^ attempt)] else []);
               (data, events) = fetch_attempts net retries params (Suc attempt) remaining
           in (data, Request params # waits @ backoff @ events)))"

definition fetch_page_with_retry ::
  "(py_dict \<Rightarrow> nat \<Rightarrow> http_outcome) \<Rightarrow> api_config \<Rightarrow> py_dict \<Rightarrow> json \<times> event list" where
  "fetch_page_with_retry net cfg params =
     fetch_attempts net (retry_attempts cfg) params 0 (retry_attempts cfg)"

definition page_params :: "nat \<Rightarrow> nat \<Rightarrow> string option \<Rightarrow> string option \<Rightarrow> py_dict" where
  "page_params page page_size start_date end_date =
     [(''page'', JInt (int page)), (''per_page'', JInt (int page_size))]
     @ (case start_date of None \<Rightarrow> [] | Some d \<Rightarrow> if d \<noteq> [] then [(''brewed_after'', JStr d)] else [])
     @ (case end_date of None \<Rightarrow> [] | Some d \<Rightarrow> if d \<noteq> [] then [(''brewed_before'', JStr d)] else [])"

text \<open>
  The \<^verbatim>\<open>while True\<close> loop of \<^verbatim>\<open>_extract_async\<close>, from the page \<open>page\<close> on, with the beers
  collected and the events recorded so far. The loop has no bound of its own, so the result
  is optional: \<open>None\<close> stands for a run that never ends. \<^verbatim>\<open>all_beers.extend(page_data)\<close>
  raises for a body that is true but not iterable, and nothing catches that.
\<close>

partial_function (option) extract_loop ::
  "(py_dict \<Rightarrow> nat \<Rightarrow> http_outcome) \<Rightarrow> api_config \<Rightarrow> string option \<Rightarrow> string option \<Rightarrow> nat \<Rightarrow>
     nat \<Rightarrow> json list \<Rightarrow> event list \<Rightarrow> ((py_error + json list) \<times> event list) option" where
  "extract_loop net cfg start_date end_date page_size page all_beers history =
     (case fetch_page_with_retry net cfg (page_params page page_size start_date end_date) of
        (page_data, events) \<Rightarrow>
          if \<not> py_truthy page_data then Some (Inr all_beers, history @ events)
          else (case py_iter page_data of
                  Inl e \<Rightarrow> Some (Inl e, history @ events)
                | Inr items \<Rightarrow>
                    if length items < page_size then Some (Inr (all_beers @ items), history @ events)
                    else extract_loop net cfg start_date end_date page_size (page + 1)
                           (all_beers @ items) (history @ events @ [Sleep (rate_limit_delay cfg)])))"

definition extract_async ::
  "(py_dict \<Rightarrow> nat \<Rightarrow> http_outcome) \<Rightarrow> api_config \<Rightarrow> string option \<Rightarrow> string option \<Rightarrow> nat \<Rightarrow>
     ((py_error + json list) \<times> event list) option" where
  "extract_async net cfg start_date end_date page_size =
     extract_loop net cfg start_date end_date page_size 1 [] []"

subsection \<open>FullDatasetLoader\<close>

record loader =
  loader_timeout :: real
  batch_size :: nat
  total_expected :: nat

definition init_loader :: loader where
  "init_loader = \<lparr> loader_timeout = 30, batch_size = 200, total_expected = 8408 \<rparr>"

text \<open>
  The first three statements of the \<^verbatim>\<open>try\<close> block: the request, \<^verbatim>\<open>raise_for_status()\<close> and
  the decoding of the body.
\<close>

definition fetch_breweries :: "http_outcome \<Rightarrow> py_error + json" where
  "fetch_breweries outcome =
     (case outcome of
        Response status body \<Rightarrow>
          if raise_for_status status then Inl RequestException
          else (case body of None \<Rightarrow> Inl JSONDecodeError | Some breweries \<Rightarrow> Inr breweries)
      | Timeout \<Rightarrow> Inl RequestException
      | ConnectionError \<Rightarrow> Inl RequestException)"

text \<open>
  The \<^verbatim>\<open>while True\<close> loop of \<^verbatim>\<open>extract_all_breweries\<close>. Every exception inside the \<^verbatim>\<open>try\<close>
  block moves on to the next page; the page counter never passes 50. The request to the
  \<^verbatim>\<open>/meta\<close> endpoint before the loop only feeds a progress message and is left out.
\<close>

function extract_all_loop ::
  "(py_dict \<Rightarrow> http_outcome) \<Rightarrow> loader \<Rightarrow> nat \<Rightarrow> json list \<Rightarrow> event list \<Rightarrow> json list \<times> event list" where
  "extract_all_loop http ld page all_breweries history =
     (let params = [(''page'', JInt (int page)), (''per_page'', JInt (int (batch_size ld)))];
          history1 = history @ [Request params]
      in case fetch_breweries (http params) of
           Inl e \<Rightarrow>
             if page + 1 > 50 then (all_breweries, history1)
             else extract_all_loop http ld (page + 1) all_breweries history1
         | Inr breweries \<Rightarrow>
             if \<not> py_truthy breweries then (all_breweries, history1)
             else (case py_iter breweries of
                     Inl e \<Rightarrow>
                       if page + 1 > 50 then (all_breweries, history1)
                       else extract_all_loop http ld (page + 1) all_breweries history1
                   | Inr items \<Rightarrow>
                       if length items < batch_size ld
                       then (all_breweries @ items, history1 @ [Sleep (1 / 2)])
                       else if page + 1 > 50 then (all_breweries @ items, history1 @ [Sleep (1 / 2)])
                       else extract_all_loop http ld (page + 1) (all_breweries @ items)
                              (history1 @ [Sleep (1 / 2)])))"
  by pat_completeness auto
termination
  by (relation "measure (\<lambda>(http, ld, page, all_breweries, history). 50 - page)") auto

declare extract_all_loop.simps [simp del]

definition extract_all_breweries :: "(py_dict \<Rightarrow> http_outcome) \<Rightarrow> loader \<Rightarrow> json list \<times> event list" where
  "extract_all_breweries http ld = extract_all_loop http ld 1 [] []"

subsection \<open>Mock sources\<close>

text \<open>
  A source that holds the records \<open>recs\<close> and serves them in pages: the page \<open>page\<close> of size
  \<open>per_page\<close> (pages count from 1) is the slice after the \<open>(page - 1) * per_page\<close> records
  before it, with status 200 at every attempt.
\<close>

definition paged_source :: "json list \<Rightarrow> py_dict \<Rightarrow> nat \<Rightarrow> http_outcome" where
  "paged_source recs params attempt =
     (case (dict_get params ''page'' JNull, dict_get params ''per_page'' JNull) of
        (JInt page, JInt per_page) \<Rightarrow>
          Response 200 (Some (JList (take (nat per_page) (drop (nat ((page - 1) * per_page)) recs))))
      | _ \<Rightarrow> Response 400 None)"

text \<open>A source that answers one page with the same outcome at every attempt.\<close>

definition with_page :: "nat \<Rightarrow> http_outcome \<Rightarrow> (py_dict \<Rightarrow> nat \<Rightarrow> http_outcome) \<Rightarrow> py_dict \<Rightarrow> nat \<Rightarrow> http_outcome" where
  "with_page bad outcome net params attempt =
     (if dict_get params ''page'' JNull = JInt (int bad) then outcome else net params attempt)"

text \<open>
  The outcomes that are a failure for both collectors: a timeout, another exception of
  the client, and a response with a client or server error code.
\<close>

definition failed_outcome :: "http_outcome \<Rightarrow> bool" where
  "failed_outcome outcome =
     (case outcome of Response status body \<Rightarrow> raise_for_status status | Timeout \<Rightarrow> True | ConnectionError \<Rightarrow> True)"

text \<open>The configuration that \<^verbatim>\<open>ConfigManager\<close> gives when nothing overrides it.\<close>

definition default_config :: api_config where
  "default_config =
     \<lparr> base_url = ''https://api.punkapi.com/v2'', timeout = 30, retry_attempts = 3,
       rate_limit_delay = 1 \<rparr>"

text \<open>A loader that asks for pages of two records, and nine records to serve.\<close>

definition small_loader :: loader where
  "small_loader = init_loader\<lparr>batch_size := 2\<rparr>"

definition nine_records :: "json list" where
  "nine_records = map JInt [1, 2, 3, 4, 5, 6, 7, 8, 9]"

text \<open>The number of requests in a sequence of events, and its sleeps in order.\<close>

fun request_count :: "event list \<Rightarrow> nat" where
  "request_count [] = 0"
| "request_count (Request params # es) = Suc (request_count es)"
| "request_count (Sleep d # es) = request_count es"



section \<open>Networks that tell what a sender asks for\<close>

text \<open>The query parameters carry an integer \<^verbatim>\<open>per_page\<close> of at most \<open>m\<close>.\<close>

definition per_page_at_most :: "int \<Rightarrow> py_dict \<Rightarrow> bool" where
  "per_page_at_most m params =
     (case map_of params ''per_page'' of Some (JInt v) \<Rightarrow> v \<le> m | _ \<Rightarrow> False)"

text \<open>
  A network that answers with the document \<open>doc\<close> exactly the requests whose \<^verbatim>\<open>per_page\<close> is
  \<open>v\<close> and is unreachable for every other request.
\<close>

definition answers_per_page :: "int \<Rightarrow> json \<Rightarrow> string \<Rightarrow> py_dict \<Rightarrow> http_outcome" where
  "answers_per_page v doc url params =
     (if map_of params ''per_page'' = Some (JInt v) then Response 200 (Some doc) else ConnectionError)"

text \<open>
  The network \<open>http\<close>, altered at every request that does not carry a \<^verbatim>\<open>per_page\<close> of at most
  \<open>m\<close>: there it answers with two beers.
\<close>

definition above :: "int \<Rightarrow> (string \<Rightarrow> py_dict \<Rightarrow> http_outcome) \<Rightarrow> string \<Rightarrow> py_dict \<Rightarrow> http_outcome" where
  "above m http url params =
     (if per_page_at_most m params then http url params
      else Response 200 (Some (JList [demo_beer, demo_saison])))"

text \<open>A network for the API service that answers at once what \<open>http\<close> answers.\<close>

definition timed ::
  "(string \<Rightarrow> py_dict \<Rightarrow> http_outcome) \<Rightarrow> string \<Rightarrow> py_dict option \<Rightarrow> real \<Rightarrow> http_outcome \<times> real" where
  "timed http endpoint params t =
     (http endpoint (case params of None \<Rightarrow> [] | Some ps \<Rightarrow> ps), t)"

section \<open>Properties\<close>

subsection \<open>The sample built-ins on strings and integers\<close>

lemma sample_str_atoms [simp]:
  "sample_str (JStr s) = s"
  "sample_str (JInt n) = (if n < 0 then ''-'' @ digits (nat (- n)) else digits (nat n))"
  by (simp_all add: sample_str_def int_text_def)

subsection \<open>Fingerprint stability\<close>

lemma sort_key_fst_unique:
  assumes "distinct (map fst P1)" and "distinct (map fst P2)" and "set P1 = set P2"
  shows "sort_key fst P1 = sort_key fst (P2 :: ('k::linorder \<times> 'v) list)"
proof -
  have inj: "inj_on fst (set P1)"
    using assms(1) by (simp add: distinct_map)
  show ?thesis
  proof (rule map_sorted_distinct_set_unique [where f = fst])
    show "inj_on fst (set (sort_key fst P1) \<union> set (sort_key fst P2))"
      using inj assms(3) by simp
    show "sorted (map fst (sort_key fst P1))" by simp
    show "sorted (map fst (sort_key fst P2))" by simp
    show "distinct (map fst (sort_key fst P1))"
      using assms(1) by (simp add: distinct_map)
    show "distinct (map fst (sort_key fst P2))"
      using assms(2) by (simp add: distinct_map)
    show "set (sort_key fst P1) = set (sort_key fst P2)"
      using assms(3) by simp
  qed
qed

text \<open>
  C8. Two parameter dictionaries that hold the same key-value pairs, inserted in any two
  orders, give the same cache key for every endpoint.
\<close>

theorem get_cache_key_insertion_order:
  assumes "distinct (map fst P1)" and "distinct (map fst P2)" and "set P1 = set P2"
  shows "get_cache_key b endpoint (Some P1) = get_cache_key b endpoint (Some P2)"
proof -
  have "sort_key fst P1 = sort_key fst P2"
    using assms by (rule sort_key_fst_unique)
  moreover have "P1 = [] \<longleftrightarrow> P2 = []"
    using assms(3) by (metis set_empty)
  ultimately show ?thesis
    by (simp add: get_cache_key_def)
qed

theorem get_cache_key_insertion_order_witness:
  "get_cache_key sample_builtins ''/search'' (Some [(''query'', JStr ''stone''), (''per_page'', JInt 5)])
     = get_cache_key sample_builtins ''/search'' (Some [(''per_page'', JInt 5), (''query'', JStr ''stone'')])
   \<and> get_cache_key sample_builtins ''/search'' (Some [(''query'', JStr ''stone''), (''per_page'', JInt 5)])
     = ''/search?per_page=5&query=stone''"
proof -
  have d1: "distinct (map fst [(''query'', JStr ''stone''), (''per_page'', JInt 5)])" by simp
  have d2: "distinct (map fst [(''per_page'', JInt 5), (''query'', JStr ''stone'')])" by simp
  have s: "set [(''query'', JStr ''stone''), (''per_page'', JInt 5)]
             = set [(''per_page'', JInt 5), (''query'', JStr ''stone'')]" by auto
  have "get_cache_key sample_builtins ''/search'' (Some [(''per_page'', JInt 5), (''query'', JStr ''stone'')])
          = ''/search?per_page=5&query=stone''"
    by (simp add: get_cache_key_def sample_builtins_def)
  then show ?thesis
    using get_cache_key_insertion_order [OF d1 d2 s, of sample_builtins "''/search''"] by simp
qed

subsection \<open>Cache time-to-live\<close>

lemma ttl_of_cases:
  "ttl_of ''analytics_summary'' = 3600 \<and> ttl_of ''brewery_analytics'' = 1800
   \<and> ttl_of ''system_status'' = 300 \<and> ttl_of ''geographic_data'' = 7200
   \<and> ttl_of ''search'' = 3600"
  by (simp add: ttl_of_def local_cache_ttl_def)

text \<open>
  C7, as the code has it. An entry written at time \<open>T\<close> is served at every time strictly
  before \<open>T\<close> plus its time-to-live and not served from then on. In the file cache, when
  \<^verbatim>\<open>set\<close> returned \<^verbatim>\<open>True\<close>, the time-to-live is looked up by cache key (3600 seconds when the
  key has none) and a hit returns the stored JSON document, which holds the payload under
  \<^verbatim>\<open>'data'\<close> beside the metadata; when \<^verbatim>\<open>set\<close> returned \<^verbatim>\<open>False\<close> for a key that had no file,
  every later \<^verbatim>\<open>get\<close> of the key is a miss. In the in-memory cache of the API service the
  time-to-live is the service's single \<open>cache_ttl\<close>, a hit returns the payload itself and
  leaves the service untouched, and at a miss the outcome is the one of a service that has
  no entry under the key.
\<close>

theorem cache_ttl_boundary:
  "(fst (local_set b disk dir T k payload) \<longrightarrow>
      (now < T + real_of_int (ttl_of k) \<longrightarrow>
         local_get (snd (local_set b disk dir T k payload)) now k
           = Some (JObj [(''data'', payload), (''cached_at'', JStr (py_isoformat b T)),
                         (''cache_key'', JStr k), (''ttl_seconds'', JInt (ttl_of k))]))
      \<and> (T + real_of_int (ttl_of k) \<le> now \<longrightarrow>
           local_get (snd (local_set b disk dir T k payload)) now k = None))
   \<and> (\<not> fst (local_set b disk dir T k payload) \<and> dir k = None \<longrightarrow>
        local_get (snd (local_set b disk dir T k payload)) now k = None)
   \<and> (cache st (get_cache_key b endpoint params) = Some \<lparr>entry_data = payload, entry_timestamp = T\<rparr> \<longrightarrow>
        (now < T + cache_ttl st \<longrightarrow> make_request b http now st endpoint params = (payload, st))
        \<and> (T + cache_ttl st \<le> now \<longrightarrow>
             fst (make_request b http now st endpoint params)
               = fst (make_request b http now
                    (st\<lparr>cache := (cache st)(get_cache_key b endpoint params := None)\<rparr>) endpoint params)))"
proof (intro conjI impI)
  assume "fst (local_set b disk dir T k payload)"
  then have w: "disk k = Written"
    by (cases "disk k") (simp_all add: local_set_def)
  {
    assume "now < T + real_of_int (ttl_of k)"
    then show "local_get (snd (local_set b disk dir T k payload)) now k
          = Some (JObj [(''data'', payload), (''cached_at'', JStr (py_isoformat b T)),
                        (''cache_key'', JStr k), (''ttl_seconds'', JInt (ttl_of k))])"
      by (simp add: w local_get_def local_set_def local_is_cache_valid_def Let_def)
  }
  {
    assume "T + real_of_int (ttl_of k) \<le> now"
    then show "local_get (snd (local_set b disk dir T k payload)) now k = None"
      by (simp add: w local_get_def local_set_def local_is_cache_valid_def Let_def)
  }
next
  assume "\<not> fst (local_set b disk dir T k payload) \<and> dir k = None"
  then show "local_get (snd (local_set b disk dir T k payload)) now k = None"
    by (cases "disk k") (simp_all add: local_get_def local_set_def local_is_cache_valid_def Let_def)
next
  assume "cache st (get_cache_key b endpoint params) = Some \<lparr>entry_data = payload, entry_timestamp = T\<rparr>"
    and "now < T + cache_ttl st"
  then show "make_request b http now st endpoint params = (payload, st)"
    by (simp add: make_request_def api_is_cache_valid_def Let_def)
next
  assume "cache st (get_cache_key b endpoint params) = Some \<lparr>entry_data = payload, entry_timestamp = T\<rparr>"
    and "T + cache_ttl st \<le> now"
  then show "fst (make_request b http now st endpoint params)
               = fst (make_request b http now
                    (st\<lparr>cache := (cache st)(get_cache_key b endpoint params := None)\<rparr>) endpoint params)"
    by (simp add: make_request_def api_is_cache_valid_def rate_limit_def Let_def
          split: prod.splits http_outcome.splits option.splits)
qed

theorem cache_ttl_boundary_witness:
  "fst (local_set sample_builtins flat_disk Map.empty 0 ''system_status'' (JStr ''ok''))
   \<and> local_get (snd (local_set sample_builtins flat_disk Map.empty 0 ''system_status'' (JStr ''ok'')))
        299 ''system_status''
     = Some (JObj [(''data'', JStr ''ok''), (''cached_at'', JStr ''1970-01-01T00:00:00''),
                   (''cache_key'', JStr ''system_status''), (''ttl_seconds'', JInt 300)])
   \<and> local_get (snd (local_set sample_builtins flat_disk Map.empty 0 ''system_status'' (JStr ''ok'')))
        300 ''system_status'' = None
   \<and> \<not> fst (local_set sample_builtins flat_disk Map.empty 0 ''geo/us'' (JStr ''ok''))
   \<and> local_get (snd (local_set sample_builtins flat_disk Map.empty 0 ''geo/us'' (JStr ''ok''))) 1 ''geo/us''
     = None
   \<and> make_request sample_builtins demo_http 299 demo_service ''/random'' None = (JStr ''ok'', demo_service)
   \<and> fst (make_request sample_builtins demo_http 300 demo_service ''/random'' None) = JStr ''fresh''"
proof -
  have t: "ttl_of ''system_status'' = 300" by (simp add: ttl_of_def local_cache_ttl_def)
  have k: "get_cache_key sample_builtins ''/random'' None = ''/random''" by (simp add: get_cache_key_def)
  have c: "cache demo_service (get_cache_key sample_builtins ''/random'' None)
             = Some \<lparr>entry_data = JStr ''ok'', entry_timestamp = 0\<rparr>"
    by (simp add: k demo_service_def)
  have ttl: "cache_ttl demo_service = 300" by (simp add: demo_service_def init_api_service_def)
  have miss: "fst (make_request sample_builtins demo_http 300
                 (demo_service\<lparr>cache := (cache demo_service)(''/random'' := None)\<rparr>) ''/random'' None) = JStr ''fresh''"
    by (simp add: make_request_def k demo_service_def demo_http_def Let_def raise_for_status_def)
  have iso: "py_isoformat sample_builtins 0 = ''1970-01-01T00:00:00''"
    by (simp add: sample_builtins_def first_day_isoformat_def two_digits_def)
  have ok: "fst (local_set sample_builtins flat_disk Map.empty 0 ''system_status'' (JStr ''ok''))"
    by (simp add: local_set_def flat_disk_def)
  have bad: "\<not> fst (local_set sample_builtins flat_disk Map.empty 0 ''geo/us'' (JStr ''ok''))"
    by (simp add: local_set_def flat_disk_def)
  note a = cache_ttl_boundary [of sample_builtins flat_disk Map.empty 0 "''system_status''" "JStr ''ok''"
      299 demo_service "''/random''" None demo_http]
  note b = cache_ttl_boundary [of sample_builtins flat_disk Map.empty 0 "''system_status''" "JStr ''ok''"
      300 demo_service "''/random''" None demo_http]
  note g = cache_ttl_boundary [of sample_builtins flat_disk Map.empty 0 "''geo/us''" "JStr ''ok''"
      1 demo_service "''/random''" None demo_http]
  have 1: "local_get (snd (local_set sample_builtins flat_disk Map.empty 0 ''system_status'' (JStr ''ok'')))
        299 ''system_status''
     = Some (JObj [(''data'', JStr ''ok''), (''cached_at'', JStr ''1970-01-01T00:00:00''),
                   (''cache_key'', JStr ''system_status''), (''ttl_seconds'', JInt 300)])"
    using a ok by (simp add: t iso)
  have 2: "local_get (snd (local_set sample_builtins flat_disk Map.empty 0 ''system_status'' (JStr ''ok'')))
        300 ''system_status'' = None"
    using b ok by (simp add: t)
  have 3: "local_get (snd (local_set sample_builtins flat_disk Map.empty 0 ''geo/us'' (JStr ''ok''))) 1 ''geo/us''
     = None"
    using g bad by simp
  have 4: "make_request sample_builtins demo_http 299 demo_service ''/random'' None = (JStr ''ok'', demo_service)"
    using a c by (simp add: ttl)
  have 5: "fst (make_request sample_builtins demo_http 300 demo_service ''/random'' None) = JStr ''fresh''"
    using b c miss by (simp add: ttl k)
  show ?thesis
    using ok bad 1 2 3 4 5 by blast
qed

text \<open>
  The file cache does not return the payload itself: the status written at time 0, with
  \<^verbatim>\<open>set\<close> returning \<^verbatim>\<open>True\<close>, is read back at time 1 as the wrapped document.
\<close>

theorem local_get_returns_entry_counterexample:
  "fst (local_set sample_builtins flat_disk Map.empty 0 ''system_status'' (JStr ''ok''))
   \<and> local_get (snd (local_set sample_builtins flat_disk Map.empty 0 ''system_status'' (JStr ''ok'')))
        1 ''system_status''
     \<noteq> Some (JStr ''ok'')"
  by (simp add: local_get_def local_set_def flat_disk_def local_is_cache_valid_def ttl_of_def
      local_cache_ttl_def)

subsection \<open>Deduplication\<close>

lemma sort_key_Nil_iff: "sort_key f xs = [] \<longleftrightarrow> xs = []"
  by (metis length_sort length_0_conv)

lemma filter_zip_upt_first:
  "map fst (filter (\<lambda>(r, n). n = k) (zip xs [k ..< k + length xs])) = take 1 xs"
proof (cases xs)
  case Nil
  then show ?thesis by simp
next
  case (Cons x ys)
  have rest: "filter (\<lambda>(r, n). n = k) (zip ys [Suc k ..< k + Suc (length ys)]) = []"
    by (auto simp: filter_empty_conv dest!: set_zip_rightD)
  have "[k ..< k + Suc (length ys)] = k # [Suc k ..< k + Suc (length ys)]"
    by (rule upt_conv_Cons) simp
  then have "zip xs [k ..< k + length xs] = (x, k) # zip ys [Suc k ..< k + Suc (length ys)]"
    using Cons by (simp del: upt_Suc)
  then show ?thesis
    using Cons rest by (simp del: upt_Suc)
qed

lemma row_number_first:
  assumes "valid_warehouse w"
  shows "map fst (filter (\<lambda>(r, row_num). row_num = 1) (row_number w part)) = take 1 (window_order w part)"
proof -
  have "length (window_order w part) = length part"
    using assms by (metis valid_warehouse_def size_mset)
  then show ?thesis
    using filter_zip_upt_first [of 1 "window_order w part"] by (simp add: row_number_def)
qed

lemma dedup_query_take:
  assumes "valid_warehouse w"
  shows "dedup_query w rows = concat (map (\<lambda>part. take 1 (window_order w part)) (partitions rows))"
proof -
  have "dedup_query w rows
          = concat (map (\<lambda>part. map fst (filter (\<lambda>(r, row_num). row_num = 1) (row_number w part))) (partitions rows))"
    by (simp add: dedup_query_def filter_concat map_concat comp_def)
  then show ?thesis
    by (simp only: row_number_first [OF assms])
qed

lemma survivor_props:
  assumes "valid_warehouse w" and "k \<in> dedup_key ` set rows"
  shows "take 1 (window_order w (filter (\<lambda>r. dedup_key r = k) rows)) = [survivor w rows k]"
    and "survivor w rows k \<in> set rows"
    and "dedup_key (survivor w rows k) = k"
    and "\<forall>r \<in> set rows. dedup_key r = k \<longrightarrow> processed_at r \<le> processed_at (survivor w rows k)"
proof -
  let ?p = "filter (\<lambda>r. dedup_key r = k) rows"
  have ms: "mset (window_order w ?p) = mset ?p"
    using assms(1) by (simp add: valid_warehouse_def)
  have st: "set (window_order w ?p) = set ?p"
    using ms by (rule mset_eq_setD)
  have "?p \<noteq> []"
    using assms(2) by (auto simp: filter_empty_conv)
  then have ne: "window_order w ?p \<noteq> []"
    using ms by (metis mset_zero_iff)
  then obtain x xs where wx: "window_order w ?p = x # xs"
    by (cases "window_order w ?p") auto
  have sv: "survivor w rows k = x"
    by (simp add: survivor_def wx)
  show "take 1 (window_order w ?p) = [survivor w rows k]"
    by (simp add: sv wx)
  have "x \<in> set ?p"
    using st wx by (metis list.set_intros(1))
  then show "survivor w rows k \<in> set rows" and "dedup_key (survivor w rows k) = k"
    by (simp_all add: sv)
  have "sorted_wrt (\<lambda>r r'. processed_at r' \<le> processed_at r) (x # xs)"
    using assms(1) wx by (metis valid_warehouse_def)
  then have "\<forall>r \<in> set (x # xs). processed_at r \<le> processed_at x"
    by auto
  then show "\<forall>r \<in> set rows. dedup_key r = k \<longrightarrow> processed_at r \<le> processed_at (survivor w rows k)"
    using st wx by (auto simp: sv)
qed

lemma dedup_query_survivors:
  assumes "valid_warehouse w"
  shows "dedup_query w rows = map (survivor w rows) (remdups (map dedup_key rows))"
proof -
  have "concat (map (\<lambda>k. take 1 (window_order w (filter (\<lambda>r. dedup_key r = k) rows))) ks)
          = map (survivor w rows) ks" if "set ks \<subseteq> dedup_key ` set rows" for ks
    using that
  proof (induction ks)
    case Nil
    then show ?case by simp
  next
    case (Cons k ks)
    then show ?case
      using survivor_props(1) [OF assms, of k rows] by simp
  qed
  then show ?thesis
    using assms by (simp add: dedup_query_take partitions_def comp_def)
qed

lemma dedup_query_keys:
  assumes "valid_warehouse w"
  shows "map dedup_key (dedup_query w rows) = remdups (map dedup_key rows)"
proof -
  have "map dedup_key (map (survivor w rows) ks) = ks" if "set ks \<subseteq> dedup_key ` set rows" for ks
    using that survivor_props(3) [OF assms, of _ rows]
    by (induction ks) auto
  then show ?thesis
    using assms by (simp add: dedup_query_survivors)
qed

lemma duplicate_check_empty:
  "duplicate_check_query rows = [] \<longleftrightarrow> distinct (map dedup_key rows)"
proof -
  have cnt: "length (filter (\<lambda>r. dedup_key r = k) rows) = count (mset (map dedup_key rows)) k" for k
    by (induction rows) auto
  have "duplicate_check_query rows = []
          \<longleftrightarrow> (\<forall>k \<in> set (map dedup_key rows). \<not> 1 < count (mset (map dedup_key rows)) k)"
    by (auto simp: duplicate_check_query_def group_counts_def sort_key_Nil_iff filter_empty_conv cnt)
  also have "\<dots> \<longleftrightarrow> distinct (map dedup_key rows)"
    unfolding distinct_count_atmost_1 [of "map dedup_key rows"]
    by (metis count_mset_gt_0 less_one not_less_iff_gr_or_eq count_mset_0_iff One_nat_def zero_less_one less_irrefl)
  finally show ?thesis .
qed


lemma dedup_query_distinct_id:
  assumes "valid_warehouse w" and "distinct (map dedup_key rows)"
  shows "dedup_query w rows = rows"
proof -
  have inj: "inj_on dedup_key (set rows)"
    using assms(2) by (simp add: distinct_map)
  have "survivor w rows (dedup_key r) = r" if "r \<in> set rows" for r
  proof -
    have k: "dedup_key r \<in> dedup_key ` set rows" using that by simp
    show ?thesis
      using inj that survivor_props(2,3) [OF assms(1) k] by (auto dest: inj_onD)
  qed
  then have "map (survivor w rows) (map dedup_key rows) = rows"
    by (simp add: map_idI)
  then show ?thesis
    using assms by (simp add: dedup_query_survivors distinct_remdups_id)
qed

lemma stored_order_facts:
  assumes "valid_warehouse w"
  shows "set (stored_order w rows) = set rows"
    and "distinct (map dedup_key (stored_order w rows)) = distinct (map dedup_key rows)"
proof -
  have ms: "mset (stored_order w rows) = mset rows"
    using assms by (simp add: valid_warehouse_def)
  show "set (stored_order w rows) = set rows"
    using ms by (rule mset_eq_setD)
  have "mset (map dedup_key (stored_order w rows)) = mset (map dedup_key rows)"
    using ms by simp
  then show "distinct (map dedup_key (stored_order w rows)) = distinct (map dedup_key rows)"
    by (rule mset_eq_imp_distinct_iff)
qed

lemma remove_duplicates_distinct:
  assumes "valid_warehouse w"
  shows "distinct (map dedup_key (remove_duplicates w rows))"
proof (cases "duplicate_check_query rows = []")
  case True
  then show ?thesis by (simp add: remove_duplicates_def duplicate_check_empty)
next
  case False
  have "distinct (map dedup_key (dedup_query w rows))"
    using assms by (simp add: dedup_query_keys)
  then show ?thesis
    using False assms by (simp add: remove_duplicates_def stored_order_facts)
qed

lemma remove_duplicates_set:
  assumes "valid_warehouse w" and "duplicate_check_query rows \<noteq> []"
  shows "set (remove_duplicates w rows) = survivor w rows ` dedup_key ` set rows"
  using assms by (simp add: remove_duplicates_def stored_order_facts dedup_query_survivors image_image)

text \<open>
  C3, as the code has it. Whatever order the warehouse gives to equal timestamps, after
  \<^verbatim>\<open>remove_duplicates\<close> no two rows of the table share their key (\<^verbatim>\<open>beer_id\<close>, \<^verbatim>\<open>name\<close>),
  every key of the table is still there, and each row that is left is a row of the table
  whose \<^verbatim>\<open>processed_at\<close> is the maximum of its key group. Which row of several with that
  maximum is left is the warehouse's choice.
\<close>

theorem remove_duplicates_latest_per_key:
  assumes "valid_warehouse w"
  shows "distinct (map dedup_key (remove_duplicates w rows))
         \<and> dedup_key ` set (remove_duplicates w rows) = dedup_key ` set rows
         \<and> (\<forall>r \<in> set (remove_duplicates w rows).
               r \<in> set rows
               \<and> (\<forall>r' \<in> set rows. dedup_key r' = dedup_key r \<longrightarrow> processed_at r' \<le> processed_at r))"
proof (cases "duplicate_check_query rows = []")
  case True
  then have d: "distinct (map dedup_key rows)"
    by (simp add: duplicate_check_empty)
  then have "inj_on dedup_key (set rows)"
    by (simp add: distinct_map)
  then have "\<forall>r \<in> set rows. \<forall>r' \<in> set rows. dedup_key r' = dedup_key r \<longrightarrow> processed_at r' \<le> processed_at r"
    by (auto dest: inj_onD)
  then show ?thesis
    using True d by (simp add: remove_duplicates_def)
next
  case False
  note st = remove_duplicates_set [OF assms False]
  have keys: "dedup_key ` set (remove_duplicates w rows) = dedup_key ` set rows"
  proof -
    have "dedup_key (survivor w rows k) = k" if "k \<in> dedup_key ` set rows" for k
      using survivor_props(3) [OF assms that] .
    then show ?thesis
      unfolding st by (force simp: image_iff)
  qed
  have latest: "r \<in> set rows
         \<and> (\<forall>r' \<in> set rows. dedup_key r' = dedup_key r \<longrightarrow> processed_at r' \<le> processed_at r)"
    if "r \<in> set (remove_duplicates w rows)" for r
  proof -
    from that obtain k where k: "k \<in> dedup_key ` set rows" and r: "r = survivor w rows k"
      unfolding st by auto
    show ?thesis
      using survivor_props(2,3,4) [OF assms k] by (simp add: r)
  qed
  show ?thesis
    using remove_duplicates_distinct [OF assms] keys latest by blast
qed

text \<open>
  C4. Deduplication is idempotent: a second run of \<^verbatim>\<open>remove_duplicates\<close> finds no
  duplicate and leaves the table as the first run left it; the deduplicating query
  itself, run on that table or on its own result, selects exactly the rows it is given.
\<close>

theorem remove_duplicates_idempotent:
  assumes "valid_warehouse w"
  shows "remove_duplicates w (remove_duplicates w rows) = remove_duplicates w rows
         \<and> dedup_query w (remove_duplicates w rows) = remove_duplicates w rows
         \<and> dedup_query w (dedup_query w rows) = dedup_query w rows"
proof -
  have d: "distinct (map dedup_key (remove_duplicates w rows))"
    using assms by (rule remove_duplicates_distinct)
  then have "duplicate_check_query (remove_duplicates w rows) = []"
    by (simp add: duplicate_check_empty)
  then have "remove_duplicates w (remove_duplicates w rows) = remove_duplicates w rows"
    by (simp add: remove_duplicates_def [of w "remove_duplicates w rows"])
  moreover have "dedup_query w (dedup_query w rows) = dedup_query w rows"
    using assms by (intro dedup_query_distinct_id) (simp_all add: dedup_query_keys)
  ultimately show ?thesis
    using dedup_query_distinct_id [OF assms d] by simp
qed

lemma latest_first_facts:
  "mset (latest_first rows) = mset rows"
  "sorted_wrt (\<lambda>r r'. processed_at r' \<le> processed_at r) (latest_first rows)"
proof -
  show "mset (latest_first rows) = mset rows"
    by (simp add: latest_first_def)
  have "sorted (map (\<lambda>r. - processed_at r) (latest_first rows))"
    by (simp add: latest_first_def)
  then show "sorted_wrt (\<lambda>r r'. processed_at r' \<le> processed_at r) (latest_first rows)"
    by (simp add: sorted_map sorted_wrt_iff_nth_less)
qed

lemma valid_first_seen_warehouse: "valid_warehouse first_seen_warehouse"
  by (simp add: valid_warehouse_def first_seen_warehouse_def latest_first_facts)

lemma valid_last_seen_warehouse: "valid_warehouse last_seen_warehouse"
  by (simp add: valid_warehouse_def last_seen_warehouse_def latest_first_facts)

lemma remove_duplicates_first_seen:
  "remove_duplicates first_seen_warehouse [row_d, row_a, row_b, row_c] = [row_a, row_c]"
  by (simp add: remove_duplicates_def duplicate_check_query_def group_counts_def dedup_query_def
      partitions_def row_number_def first_seen_warehouse_def latest_first_def dedup_key_def
      row_a_def row_b_def row_c_def row_d_def)

lemma remove_duplicates_last_seen:
  "remove_duplicates last_seen_warehouse [row_d, row_a, row_b, row_c] = [row_b, row_c]"
  by (simp add: remove_duplicates_def duplicate_check_query_def group_counts_def dedup_query_def
      partitions_def row_number_def last_seen_warehouse_def latest_first_def dedup_key_def
      row_a_def row_b_def row_c_def row_d_def)

theorem remove_duplicates_latest_per_key_witness:
  "valid_warehouse (first_seen_warehouse :: string warehouse)
   \<and> distinct (map dedup_key (remove_duplicates first_seen_warehouse [row_d, row_a, row_b, row_c]))
   \<and> dedup_key ` set (remove_duplicates first_seen_warehouse [row_d, row_a, row_b, row_c])
       = dedup_key ` set [row_d, row_a, row_b, row_c]
   \<and> remove_duplicates first_seen_warehouse [row_d, row_a, row_b, row_c] = [row_a, row_c]"
  using remove_duplicates_latest_per_key [OF valid_first_seen_warehouse, of "[row_d, row_a, row_b, row_c]"]
    valid_first_seen_warehouse remove_duplicates_first_seen
  by simp

text \<open>
  The first-seen row does not always win a tie: \<open>row_a\<close> comes before \<open>row_b\<close>, both carry
  the latest timestamp of their key, and a warehouse that numbers equal timestamps in the
  opposite order keeps \<open>row_b\<close>.
\<close>

theorem remove_duplicates_tie_counterexample:
  "valid_warehouse (last_seen_warehouse :: string warehouse)
   \<and> dedup_key row_a = dedup_key row_b
   \<and> processed_at row_a = processed_at row_b
   \<and> row_a \<noteq> row_b
   \<and> remove_duplicates last_seen_warehouse [row_d, row_a, row_b, row_c] = [row_b, row_c]"
  using valid_last_seen_warehouse remove_duplicates_last_seen
  by (simp add: dedup_key_def row_a_def row_b_def)

theorem remove_duplicates_idempotent_witness:
  "remove_duplicates first_seen_warehouse
      (remove_duplicates first_seen_warehouse [row_d, row_a, row_b, row_c])
     = remove_duplicates first_seen_warehouse [row_d, row_a, row_b, row_c]
   \<and> dedup_query first_seen_warehouse (remove_duplicates first_seen_warehouse [row_d, row_a, row_b, row_c])
     = [row_a, row_c]"
  using remove_duplicates_idempotent [OF valid_first_seen_warehouse, of "[row_d, row_a, row_b, row_c]"]
    remove_duplicates_first_seen
  by simp

subsection \<open>Categories of the normalized records\<close>

lemma punk_category_cases:
  "punk_category y = ''ale'' \<or> punk_category y = ''lager'' \<or> punk_category y = ''other''"
  by (simp add: punk_category_def)

lemma table_get_category_mapping:
  assumes "table_get category_mapping t ''other'' = Inr c"
  shows "c = ''ale'' \<or> c = ''lager'' \<or> c = ''other''"
proof (cases t)
  case (JStr s)
  then have "c = (case map_of category_mapping s of None \<Rightarrow> ''other'' | Some v \<Rightarrow> v)"
    using assms by (simp add: table_get_def)
  then show ?thesis
    by (auto simp: category_mapping_def split: if_splits)
qed (use assms in \<open>auto simp: table_get_def\<close>)

lemma table_get_loader_category_mapping:
  assumes "table_get loader_category_mapping t ''other'' = Inr c"
  shows "c = ''ale'' \<or> c = ''lager'' \<or> c = ''other''"
proof (cases t)
  case (JStr s)
  then have "c = (case map_of loader_category_mapping s of None \<Rightarrow> ''other'' | Some v \<Rightarrow> v)"
    using assms by (simp add: table_get_def)
  then show ?thesis
    by (auto simp: loader_category_mapping_def split: if_splits)
qed (use assms in \<open>auto simp: table_get_def\<close>)

lemma transform_punk_beer_category:
  assumes "transform_punk_beer b beer = Inr r"
  shows "\<exists>bd ing y. beer = JObj bd \<and> dict_get bd ''ingredients'' (JObj []) = JObj ing
           \<and> yeast_name_of b (dict_get ing ''yeast'' (JStr '''')) = Inr y
           \<and> map_of r ''category'' = Some (JStr (punk_category y))
           \<and> map_of r ''data_source'' = Some (JStr ''punk_api'')"
  using assms
  by (auto simp: transform_punk_beer_def split: json.splits sum.splits)

lemma transform_brewery_to_beer_category:
  assumes "transform_brewery_to_beer b brewery = Inr r"
  shows "\<exists>bd c. brewery = JObj bd
           \<and> table_get category_mapping (dict_get bd ''brewery_type'' (JStr ''unknown'')) ''other'' = Inr c
           \<and> map_of r ''category'' = Some (JStr c)
           \<and> map_of r ''data_source'' = Some (JStr ''openbrewery_db'')"
  using assms
  by (auto simp: transform_brewery_to_beer_def Let_def split: json.splits sum.splits)

lemma loader_transform_brewery_to_beer_category:
  assumes "loader_transform_brewery_to_beer b brewery = Inr r"
  shows "\<exists>bd c. brewery = JObj bd
           \<and> table_get loader_category_mapping (dict_get bd ''brewery_type'' (JStr ''unknown'')) ''other'' = Inr c
           \<and> map_of r ''category'' = Some (JStr c)
           \<and> map_of r ''data_source'' = Some (JStr ''openbrewery_db'')"
  using assms
  by (auto simp: loader_transform_brewery_to_beer_def Let_def split: json.splits sum.splits)

text \<open>
  C9. Every record that an adapter returns (from a Punk API beer, from an Open Brewery DB
  brewery in the extractor and in the full-dataset loader) has the key \<^verbatim>\<open>category\<close>, with
  the value \<^verbatim>\<open>'ale'\<close>, \<^verbatim>\<open>'lager'\<close> or \<^verbatim>\<open>'other'\<close>; it is \<^verbatim>\<open>'other'\<close> when the yeast name
  holds none of the four words the beer adapter looks for, and when the brewery type is
  not a key of the adapter's table.
\<close>

theorem adapter_category:
  "(transform_punk_beer b beer = Inr r \<longrightarrow>
      map_of r ''category'' \<in> {Some (JStr ''ale''), Some (JStr ''lager''), Some (JStr ''other'')})
   \<and> (transform_brewery_to_beer b brewery = Inr r \<longrightarrow>
      map_of r ''category'' \<in> {Some (JStr ''ale''), Some (JStr ''lager''), Some (JStr ''other'')})
   \<and> (loader_transform_brewery_to_beer b brewery = Inr r \<longrightarrow>
      map_of r ''category'' \<in> {Some (JStr ''ale''), Some (JStr ''lager''), Some (JStr ''other'')})
   \<and> (transform_punk_beer b (JObj bd) = Inr r
        \<and> dict_get bd ''ingredients'' (JObj []) = JObj ing
        \<and> yeast_name_of b (dict_get ing ''yeast'' (JStr [])) = Inr y
        \<and> \<not> py_in ''ale'' y \<and> \<not> py_in ''cerevisiae'' y
        \<and> \<not> py_in ''lager'' y \<and> \<not> py_in ''pastorianus'' y \<longrightarrow>
      map_of r ''category'' = Some (JStr ''other''))
   \<and> (transform_brewery_to_beer b (JObj bd) = Inr r
        \<and> (\<forall>s. dict_get bd ''brewery_type'' (JStr ''unknown'') = JStr s \<longrightarrow> map_of category_mapping s = None) \<longrightarrow>
      map_of r ''category'' = Some (JStr ''other''))
   \<and> (loader_transform_brewery_to_beer b (JObj bd) = Inr r
        \<and> (\<forall>s. dict_get bd ''brewery_type'' (JStr ''unknown'') = JStr s \<longrightarrow> map_of loader_category_mapping s = None) \<longrightarrow>
      map_of r ''category'' = Some (JStr ''other''))"
proof (intro conjI impI)
  assume "transform_punk_beer b beer = Inr r"
  then obtain y where "map_of r ''category'' = Some (JStr (punk_category y))"
    by (auto dest!: transform_punk_beer_category)
  then show "map_of r ''category'' \<in> {Some (JStr ''ale''), Some (JStr ''lager''), Some (JStr ''other'')}"
    using punk_category_cases [of y] by auto
next
  assume "transform_brewery_to_beer b brewery = Inr r"
  then show "map_of r ''category'' \<in> {Some (JStr ''ale''), Some (JStr ''lager''), Some (JStr ''other'')}"
    by (auto dest!: transform_brewery_to_beer_category table_get_category_mapping)
next
  assume "loader_transform_brewery_to_beer b brewery = Inr r"
  then show "map_of r ''category'' \<in> {Some (JStr ''ale''), Some (JStr ''lager''), Some (JStr ''other'')}"
    by (auto dest!: loader_transform_brewery_to_beer_category table_get_loader_category_mapping)
next
  assume "transform_punk_beer b (JObj bd) = Inr r
        \<and> dict_get bd ''ingredients'' (JObj []) = JObj ing
        \<and> yeast_name_of b (dict_get ing ''yeast'' (JStr [])) = Inr y
        \<and> \<not> py_in ''ale'' y \<and> \<not> py_in ''cerevisiae'' y
        \<and> \<not> py_in ''lager'' y \<and> \<not> py_in ''pastorianus'' y"
  then show "map_of r ''category'' = Some (JStr ''other'')"
    by (auto dest!: transform_punk_beer_category simp: punk_category_def)
next
  assume a: "transform_brewery_to_beer b (JObj bd) = Inr r
        \<and> (\<forall>s. dict_get bd ''brewery_type'' (JStr ''unknown'') = JStr s \<longrightarrow> map_of category_mapping s = None)"
  then obtain c where c: "table_get category_mapping (dict_get bd ''brewery_type'' (JStr ''unknown'')) ''other'' = Inr c"
    and r: "map_of r ''category'' = Some (JStr c)"
    by (auto dest!: transform_brewery_to_beer_category)
  have "c = ''other''"
    using a c by (cases "dict_get bd ''brewery_type'' (JStr ''unknown'')") (auto simp: table_get_def)
  then show "map_of r ''category'' = Some (JStr ''other'')"
    using r by simp
next
  assume a: "loader_transform_brewery_to_beer b (JObj bd) = Inr r
        \<and> (\<forall>s. dict_get bd ''brewery_type'' (JStr ''unknown'') = JStr s \<longrightarrow> map_of loader_category_mapping s = None)"
  then obtain c where c: "table_get loader_category_mapping (dict_get bd ''brewery_type'' (JStr ''unknown'')) ''other'' = Inr c"
    and r: "map_of r ''category'' = Some (JStr c)"
    by (auto dest!: loader_transform_brewery_to_beer_category)
  have "c = ''other''"
    using a c by (cases "dict_get bd ''brewery_type'' (JStr ''unknown'')") (auto simp: table_get_def)
  then show "map_of r ''category'' = Some (JStr ''other'')"
    using r by simp
qed

lemma demo_beer_category:
  "\<exists>r. transform_punk_beer sample_builtins demo_beer = Inr r \<and> map_of r ''category'' = Some (JStr ''ale'')"
  by (simp add: transform_punk_beer_def demo_beer_def dict_get_def yeast_name_of_def punk_category_def
      sample_builtins_def ascii_lower_def)

lemma demo_brewery_category:
  "\<exists>r. transform_brewery_to_beer sample_builtins demo_brewery = Inr r \<and> map_of r ''category'' = Some (JStr ''lager'')"
  by (simp add: transform_brewery_to_beer_def demo_brewery_def dict_get_def table_get_def category_mapping_def Let_def)

lemma demo_taproom_category:
  "\<exists>r. transform_brewery_to_beer sample_builtins demo_taproom = Inr r \<and> map_of r ''category'' = Some (JStr ''other'')"
  by (simp add: transform_brewery_to_beer_def demo_taproom_def dict_get_def table_get_def category_mapping_def Let_def)

lemma demo_taproom_loader_category:
  "\<exists>r. loader_transform_brewery_to_beer sample_builtins demo_taproom = Inr r \<and> map_of r ''category'' = Some (JStr ''ale'')"
  by (simp add: loader_transform_brewery_to_beer_def demo_taproom_def dict_get_def table_get_def
      loader_category_mapping_def abv_estimates_def ibu_estimates_def format_address_def Let_def)

theorem adapter_category_witness:
  "(\<exists>r. transform_punk_beer sample_builtins demo_beer = Inr r
        \<and> map_of r ''category'' \<in> {Some (JStr ''ale''), Some (JStr ''lager''), Some (JStr ''other'')}
        \<and> map_of r ''category'' = Some (JStr ''ale''))
   \<and> (\<exists>r. transform_brewery_to_beer sample_builtins demo_brewery = Inr r
        \<and> map_of r ''category'' \<in> {Some (JStr ''ale''), Some (JStr ''lager''), Some (JStr ''other'')}
        \<and> map_of r ''category'' = Some (JStr ''lager''))
   \<and> (\<exists>r. loader_transform_brewery_to_beer sample_builtins demo_taproom = Inr r
        \<and> map_of r ''category'' \<in> {Some (JStr ''ale''), Some (JStr ''lager''), Some (JStr ''other'')}
        \<and> map_of r ''category'' = Some (JStr ''ale''))
   \<and> (\<exists>r. transform_punk_beer sample_builtins demo_saison = Inr r
        \<and> map_of r ''category'' = Some (JStr ''other''))
   \<and> (\<exists>r. transform_brewery_to_beer sample_builtins demo_cidery = Inr r
        \<and> map_of r ''category'' = Some (JStr ''other''))
   \<and> (\<exists>r. loader_transform_brewery_to_beer sample_builtins demo_cidery = Inr r
        \<and> map_of r ''category'' = Some (JStr ''other''))"
proof (intro conjI)
  obtain r where r: "transform_punk_beer sample_builtins demo_beer = Inr r"
      "map_of r ''category'' = Some (JStr ''ale'')"
    using demo_beer_category by blast
  then show "\<exists>r. transform_punk_beer sample_builtins demo_beer = Inr r
        \<and> map_of r ''category'' \<in> {Some (JStr ''ale''), Some (JStr ''lager''), Some (JStr ''other'')}
        \<and> map_of r ''category'' = Some (JStr ''ale'')"
    using adapter_category [where b = sample_builtins and beer = demo_beer and r = r] by blast
next
  obtain r where r: "transform_brewery_to_beer sample_builtins demo_brewery = Inr r"
      "map_of r ''category'' = Some (JStr ''lager'')"
    using demo_brewery_category by blast
  then show "\<exists>r. transform_brewery_to_beer sample_builtins demo_brewery = Inr r
        \<and> map_of r ''category'' \<in> {Some (JStr ''ale''), Some (JStr ''lager''), Some (JStr ''other'')}
        \<and> map_of r ''category'' = Some (JStr ''lager'')"
    using adapter_category [where b = sample_builtins and brewery = demo_brewery and r = r] by blast
next
  obtain r where r: "loader_transform_brewery_to_beer sample_builtins demo_taproom = Inr r"
      "map_of r ''category'' = Some (JStr ''ale'')"
    using demo_taproom_loader_category by blast
  then show "\<exists>r. loader_transform_brewery_to_beer sample_builtins demo_taproom = Inr r
        \<and> map_of r ''category'' \<in> {Some (JStr ''ale''), Some (JStr ''lager''), Some (JStr ''other'')}
        \<and> map_of r ''category'' = Some (JStr ''ale'')"
    using adapter_category [where b = sample_builtins and brewery = demo_taproom and r = r] by blast
next
  let ?ing = "[(''yeast'', JStr ''Champagne Yeast'')]"
  let ?bd = "[(''id'', JInt 7), (''name'', JStr ''Saison''), (''ingredients'', JObj ?ing)]"
  obtain r where r: "transform_punk_beer sample_builtins (JObj ?bd) = Inr r"
    by (simp add: transform_punk_beer_def dict_get_def yeast_name_of_def)
  have i: "dict_get ?bd ''ingredients'' (JObj []) = JObj ?ing"
    by (simp add: dict_get_def)
  have y: "yeast_name_of sample_builtins (dict_get ?ing ''yeast'' (JStr [])) = Inr ''champagne yeast''"
    by (simp add: dict_get_def yeast_name_of_def sample_builtins_def ascii_lower_def)
  have n: "\<not> py_in ''ale'' ''champagne yeast'' \<and> \<not> py_in ''cerevisiae'' ''champagne yeast''
           \<and> \<not> py_in ''lager'' ''champagne yeast'' \<and> \<not> py_in ''pastorianus'' ''champagne yeast''"
    by simp
  have "map_of r ''category'' = Some (JStr ''other'')"
    using adapter_category [where b = sample_builtins and bd = ?bd and r = r and ing = ?ing
        and y = "''champagne yeast''"] r i y n
    by blast
  then show "\<exists>r. transform_punk_beer sample_builtins demo_saison = Inr r
        \<and> map_of r ''category'' = Some (JStr ''other'')"
    using r by (auto simp: demo_saison_def)
next
  let ?bd = "[(''id'', JStr ''0759476d''), (''name'', JStr ''Orchard''), (''brewery_type'', JStr ''cidery''),
           (''city'', JStr ''Bend''), (''state'', JStr ''Oregon'')]"
  obtain r where r: "transform_brewery_to_beer sample_builtins (JObj ?bd) = Inr r"
    by (simp add: transform_brewery_to_beer_def dict_get_def table_get_def Let_def)
  have t: "\<forall>s. dict_get ?bd ''brewery_type'' (JStr ''unknown'') = JStr s \<longrightarrow> map_of category_mapping s = None"
    by (simp add: dict_get_def category_mapping_def)
  have "map_of r ''category'' = Some (JStr ''other'')"
    using adapter_category [where b = sample_builtins and bd = ?bd and r = r] r t by blast
  then show "\<exists>r. transform_brewery_to_beer sample_builtins demo_cidery = Inr r
        \<and> map_of r ''category'' = Some (JStr ''other'')"
    using r by (auto simp: demo_cidery_def)
next
  let ?bd = "[(''id'', JStr ''0759476d''), (''name'', JStr ''Orchard''), (''brewery_type'', JStr ''cidery''),
           (''city'', JStr ''Bend''), (''state'', JStr ''Oregon'')]"
  obtain r where r: "loader_transform_brewery_to_beer sample_builtins (JObj ?bd) = Inr r"
    by (simp add: loader_transform_brewery_to_beer_def dict_get_def table_get_def format_address_def Let_def)
  have t: "\<forall>s. dict_get ?bd ''brewery_type'' (JStr ''unknown'') = JStr s \<longrightarrow> map_of loader_category_mapping s = None"
    by (simp add: dict_get_def loader_category_mapping_def)
  have "map_of r ''category'' = Some (JStr ''other'')"
    using adapter_category [where b = sample_builtins and bd = ?bd and r = r] r t by blast
  then show "\<exists>r. loader_transform_brewery_to_beer sample_builtins demo_cidery = Inr r
        \<and> map_of r ''category'' = Some (JStr ''other'')"
    using r by (auto simp: demo_cidery_def)
qed

subsection \<open>Extraction with fallback\<close>

lemma transform_each_all:
  assumes "transform_each f xs = Inr ys" and "\<And>x y. f x = Inr y \<Longrightarrow> P y"
  shows "\<forall>y \<in> set ys. P y"
  using assms(1)
proof (induction xs arbitrary: ys)
  case Nil
  then show ?case by simp
next
  case (Cons x xs)
  then show ?case
    using assms(2) by (auto split: sum.splits)
qed

lemma extract_data_all:
  assumes "\<And>x y. f x = Inr y \<Longrightarrow> P y"
  shows "\<forall>r \<in> set (extract_data f outcome). P r"
proof -
  have each: "\<forall>r \<in> set ts. P r" if "Inr ts = transform_each f items" for items ts
    using that [symmetric] assms by (rule transform_each_all)
  show ?thesis
    by (auto simp: extract_data_def split: http_outcome.splits option.splits sum.splits dest: each)
qed

lemma extract_openbrewery_data_source:
  "\<forall>r \<in> set (extract_openbrewery_data b http limit). map_of r ''data_source'' = Some (JStr ''openbrewery_db'')"
  unfolding extract_openbrewery_data_def
proof (rule extract_data_all)
  fix x y
  assume "transform_brewery_to_beer b x = Inr y"
  then show "map_of y ''data_source'' = Some (JStr ''openbrewery_db'')"
    by (auto dest!: transform_brewery_to_beer_category)
qed

text \<open>
  C5. \<^verbatim>\<open>extract_with_fallback\<close>: when the probe of the Punk API succeeds and its extraction
  is not empty, that extraction is returned. When the probe fails or the extraction is
  empty, Open Brewery DB is probed and, if it answers, its extraction is returned; every
  record of an Open Brewery DB extraction has the source tag \<^verbatim>\<open>'openbrewery_db'\<close>. When both
  sources fail, the result is the empty list.
\<close>

theorem extract_with_fallback_cases:
  "(test_api_connectivity http ''punk'' \<and> extract_punk_api_data b http limit \<noteq> [] \<longrightarrow>
      extract_with_fallback b http limit = extract_punk_api_data b http limit)
   \<and> (\<not> test_api_connectivity http ''punk'' \<or> extract_punk_api_data b http limit = [] \<longrightarrow>
      extract_with_fallback b http limit
        = (if test_api_connectivity http ''openbrewery'' then extract_openbrewery_data b http limit else []))
   \<and> (\<forall>r \<in> set (extract_openbrewery_data b http limit).
         map_of r ''data_source'' = Some (JStr ''openbrewery_db''))
   \<and> ((\<not> test_api_connectivity http ''punk'' \<or> extract_punk_api_data b http limit = [])
        \<and> (\<not> test_api_connectivity http ''openbrewery'' \<or> extract_openbrewery_data b http limit = []) \<longrightarrow>
      extract_with_fallback b http limit = [])"
proof (intro conjI impI)
  show "\<forall>r \<in> set (extract_openbrewery_data b http limit).
         map_of r ''data_source'' = Some (JStr ''openbrewery_db'')"
    by (rule extract_openbrewery_data_source)
qed (auto simp: extract_with_fallback_def Let_def)

lemma fallback_network_run:
  "\<not> test_api_connectivity fallback_network ''punk''
   \<and> test_api_connectivity fallback_network ''openbrewery''
   \<and> length (extract_openbrewery_data sample_builtins fallback_network 10) = 2"
  by (simp add: test_api_connectivity_def fallback_network_def punk_base_url_def openbrewery_base_url_def
      extract_openbrewery_data_def extract_data_def raise_for_status_def py_iter_def
      transform_brewery_to_beer_def demo_brewery_def demo_taproom_def dict_get_def table_get_def Let_def)

lemma primary_network_run:
  "test_api_connectivity primary_network ''punk''
   \<and> length (extract_punk_api_data sample_builtins primary_network 10) = 1"
  by (simp add: test_api_connectivity_def primary_network_def punk_base_url_def
      extract_punk_api_data_def extract_data_def raise_for_status_def py_iter_def
      transform_punk_beer_def demo_beer_def dict_get_def yeast_name_of_def)

lemma dead_network_run:
  "\<not> test_api_connectivity dead_network ''punk'' \<and> \<not> test_api_connectivity dead_network ''openbrewery''"
  by (simp add: test_api_connectivity_def dead_network_def)

theorem extract_with_fallback_cases_witness:
  "extract_with_fallback sample_builtins primary_network 10
      = extract_punk_api_data sample_builtins primary_network 10
   \<and> length (extract_with_fallback sample_builtins primary_network 10) = 1
   \<and> extract_with_fallback sample_builtins fallback_network 10
      = extract_openbrewery_data sample_builtins fallback_network 10
   \<and> length (extract_with_fallback sample_builtins fallback_network 10) = 2
   \<and> list_all (\<lambda>r. map_of r ''data_source'' = Some (JStr ''openbrewery_db''))
        (extract_with_fallback sample_builtins fallback_network 10)
   \<and> extract_with_fallback sample_builtins dead_network 10 = []"
proof -
  note p = extract_with_fallback_cases [of primary_network sample_builtins 10]
  note f = extract_with_fallback_cases [of fallback_network sample_builtins 10]
  note d = extract_with_fallback_cases [of dead_network sample_builtins 10]
  have ne: "extract_punk_api_data sample_builtins primary_network 10 \<noteq> []"
    using primary_network_run by auto
  have 1: "extract_with_fallback sample_builtins primary_network 10
      = extract_punk_api_data sample_builtins primary_network 10"
    using p primary_network_run ne by blast
  have 2: "extract_with_fallback sample_builtins fallback_network 10
      = extract_openbrewery_data sample_builtins fallback_network 10"
    using f fallback_network_run by simp
  have 3: "list_all (\<lambda>r. map_of r ''data_source'' = Some (JStr ''openbrewery_db''))
        (extract_with_fallback sample_builtins fallback_network 10)"
    using f 2 by (simp add: list_all_iff)
  have 4: "extract_with_fallback sample_builtins dead_network 10 = []"
    using d dead_network_run by blast
  show ?thesis
    using 1 2 3 4 primary_network_run fallback_network_run by simp
qed

subsection \<open>Per-page clamping\<close>

lemma demo_beer_transformed: "\<exists>r. transform_punk_beer b demo_beer = Inr r"
  by (simp add: transform_punk_beer_def demo_beer_def dict_get_def yeast_name_of_def)

lemma demo_brewery_transformed: "\<exists>r. transform_brewery_to_beer b demo_brewery = Inr r"
  by (simp add: transform_brewery_to_beer_def demo_brewery_def dict_get_def table_get_def Let_def)

lemma per_page_sent:
  "map_of (punk_api_params limit) ''per_page'' = Some (JInt (min limit 80))"
  "map_of (openbrewery_params limit) ''per_page'' = Some (JInt (min limit 200))"
  "map_of (search_breweries_params query limit) ''per_page'' = Some (JInt (min limit 50))"
  by (simp_all add: punk_api_params_def openbrewery_params_def search_breweries_params_def)

text \<open>
  C10. For every requested limit the \<^verbatim>\<open>per_page\<close> that a sender hands to its source is the
  minimum of the limit and the source's maximum (80 for the Punk API, 200 for Open Brewery
  DB, 50 for the brewery search), so it never exceeds that maximum and a limit above the
  maximum is clamped, not rejected. Said of what goes over the network: the result of a
  sender does not change when the network is altered at the requests that carry no
  \<^verbatim>\<open>per_page\<close> of at most the maximum, and a network that answers only the requests with a
  \<^verbatim>\<open>per_page\<close> of \<open>v\<close> gets an answer through exactly when \<open>v\<close> is that minimum.
\<close>

theorem per_page_clamped:
  "((\<forall>url ps. per_page_at_most 80 ps \<longrightarrow> http url ps = http' url ps) \<longrightarrow>
      extract_punk_api_data b http limit = extract_punk_api_data b http' limit)
   \<and> ((\<forall>url ps. per_page_at_most 200 ps \<longrightarrow> http url ps = http' url ps) \<longrightarrow>
      extract_openbrewery_data b http limit = extract_openbrewery_data b http' limit)
   \<and> ((\<forall>endpoint ps t. per_page_at_most 50 ps \<longrightarrow> net endpoint (Some ps) t = net' endpoint (Some ps) t) \<longrightarrow>
      search_breweries b net now st query limit = search_breweries b net' now st query limit)
   \<and> (extract_punk_api_data b (answers_per_page v (JList [demo_beer])) limit \<noteq> []) = (v = min limit 80)
   \<and> (extract_openbrewery_data b (answers_per_page v (JList [demo_brewery])) limit \<noteq> [])
       = (v = min limit 200)
   \<and> (fst (search_breweries b (timed (answers_per_page v (JList [demo_brewery]))) now init_api_service
              query limit) = JList [demo_brewery])
       = (v = min limit 50)"
proof (intro conjI impI)
  assume "\<forall>url ps. per_page_at_most 80 ps \<longrightarrow> http url ps = http' url ps"
  moreover have "per_page_at_most 80 (punk_api_params limit)"
    by (simp add: per_page_at_most_def per_page_sent)
  ultimately show "extract_punk_api_data b http limit = extract_punk_api_data b http' limit"
    by (simp add: extract_punk_api_data_def)
next
  assume "\<forall>url ps. per_page_at_most 200 ps \<longrightarrow> http url ps = http' url ps"
  moreover have "per_page_at_most 200 (openbrewery_params limit)"
    by (simp add: per_page_at_most_def per_page_sent)
  ultimately show "extract_openbrewery_data b http limit = extract_openbrewery_data b http' limit"
    by (simp add: extract_openbrewery_data_def)
next
  assume "\<forall>endpoint ps t. per_page_at_most 50 ps \<longrightarrow> net endpoint (Some ps) t = net' endpoint (Some ps) t"
  moreover have "per_page_at_most 50 (search_breweries_params query limit)"
    by (simp add: per_page_at_most_def per_page_sent)
  ultimately have eq: "\<And>t. net ''/search'' (Some (search_breweries_params query limit)) t
                     = net' ''/search'' (Some (search_breweries_params query limit)) t"
    by blast
  show "search_breweries b net now st query limit = search_breweries b net' now st query limit"
    unfolding search_breweries_def make_request_def eq ..
next
  obtain r where "transform_punk_beer b demo_beer = Inr r"
    using demo_beer_transformed by blast
  then show "(extract_punk_api_data b (answers_per_page v (JList [demo_beer])) limit \<noteq> []) = (v = min limit 80)"
    by (auto simp: extract_punk_api_data_def answers_per_page_def per_page_sent extract_data_def
        raise_for_status_def py_iter_def)
next
  obtain r where "transform_brewery_to_beer b demo_brewery = Inr r"
    using demo_brewery_transformed by blast
  then show "(extract_openbrewery_data b (answers_per_page v (JList [demo_brewery])) limit \<noteq> [])
       = (v = min limit 200)"
    by (auto simp: extract_openbrewery_data_def answers_per_page_def per_page_sent extract_data_def
        raise_for_status_def py_iter_def)
next
  show "(fst (search_breweries b (timed (answers_per_page v (JList [demo_brewery]))) now init_api_service
              query limit) = JList [demo_brewery])
       = (v = min limit 50)"
    by (auto simp: search_breweries_def make_request_def init_api_service_def timed_def
        answers_per_page_def per_page_sent raise_for_status_def Let_def)
qed

theorem per_page_clamped_witness:
  "extract_punk_api_data sample_builtins (above 80 primary_network) 500
     = extract_punk_api_data sample_builtins primary_network 500
   \<and> extract_openbrewery_data sample_builtins (above 200 fallback_network) 500
     = extract_openbrewery_data sample_builtins fallback_network 500
   \<and> search_breweries sample_builtins (timed (above 50 fallback_network)) 0 init_api_service ''stone'' 500
     = search_breweries sample_builtins (timed fallback_network) 0 init_api_service ''stone'' 500
   \<and> extract_punk_api_data sample_builtins (answers_per_page 80 (JList [demo_beer])) 500 \<noteq> []
   \<and> extract_punk_api_data sample_builtins (answers_per_page 500 (JList [demo_beer])) 500 = []"
proof -
  have p: "\<forall>url ps. per_page_at_most 80 ps \<longrightarrow> above 80 primary_network url ps = primary_network url ps"
    by (simp add: above_def)
  have f: "\<forall>url ps. per_page_at_most 200 ps \<longrightarrow> above 200 fallback_network url ps = fallback_network url ps"
    by (simp add: above_def)
  have s: "\<forall>endpoint ps t. per_page_at_most 50 ps \<longrightarrow>
             timed (above 50 fallback_network) endpoint (Some ps) t = timed fallback_network endpoint (Some ps) t"
    by (simp add: above_def timed_def)
  note c1 = per_page_clamped [where http = "above 80 primary_network" and http' = primary_network
      and b = sample_builtins and limit = 500]
  note c2 = per_page_clamped [where http = "above 200 fallback_network" and http' = fallback_network
      and b = sample_builtins and limit = 500]
  note c3 = per_page_clamped [where net = "timed (above 50 fallback_network)" and net' = "timed fallback_network"
      and b = sample_builtins and limit = 500 and now = 0 and st = init_api_service and query = "''stone''"]
  note c4 = per_page_clamped [where b = sample_builtins and limit = 500 and v = 80]
  note c5 = per_page_clamped [where b = sample_builtins and limit = 500 and v = 500]
  have 1: "extract_punk_api_data sample_builtins (above 80 primary_network) 500
     = extract_punk_api_data sample_builtins primary_network 500"
    using c1 p by blast
  have 2: "extract_openbrewery_data sample_builtins (above 200 fallback_network) 500
     = extract_openbrewery_data sample_builtins fallback_network 500"
    using c2 f by blast
  have 3: "search_breweries sample_builtins (timed (above 50 fallback_network)) 0 init_api_service ''stone'' 500
     = search_breweries sample_builtins (timed fallback_network) 0 init_api_service ''stone'' 500"
    using c3 s by blast
  have 4: "extract_punk_api_data sample_builtins (answers_per_page 80 (JList [demo_beer])) 500 \<noteq> []"
    using c4 by simp
  have 5: "extract_punk_api_data sample_builtins (answers_per_page 500 (JList [demo_beer])) 500 = []"
    using c5 by simp
  show ?thesis
    using 1 2 3 4 5 by blast
qed

subsection \<open>Paginated collection\<close>

lemma requested_pages_append:
  "requested_pages (es @ fs) = requested_pages es @ requested_pages fs"
  by (induction es rule: requested_pages.induct) auto

lemma request_count_append: "request_count (es @ fs) = request_count es + request_count fs"
  by (induction es rule: request_count.induct) auto


lemma page_params_lookup:
  "dict_get (page_params page page_size start_date end_date) ''page'' JNull = JInt (int page)"
  "dict_get (page_params page page_size start_date end_date) ''per_page'' JNull = JInt (int page_size)"
  by (simp_all add: page_params_def dict_get_def)

lemma paged_source_page:
  "paged_source recs (page_params (Suc j) p start_date end_date) attempt
     = Response 200 (Some (JList (take p (drop (j * p) recs))))"
proof -
  have "nat ((int (Suc j) - 1) * int p) = j * p"
    by (simp add: nat_mult_distrib)
  then show ?thesis
    by (simp add: paged_source_def page_params_lookup)
qed

lemma fetch_first_attempt:
  assumes "0 < retry_attempts cfg" and "net params 0 = Response 200 (Some data)"
  shows "fetch_page_with_retry net cfg params = (data, [Request params])"
proof -
  obtain n where "retry_attempts cfg = Suc n"
    using assms(1) by (cases "retry_attempts cfg") auto
  then show ?thesis
    using assms(2) by (simp add: fetch_page_with_retry_def attempt_result_def)
qed

lemma extract_loop_paged:
  assumes cfg: "0 < retry_attempts cfg" and p: "0 < p"
    and agrees: "\<And>k a. j \<le> k \<Longrightarrow> net (page_params (Suc k) p sd ed) a = paged_source recs (page_params (Suc k) p sd ed) a"
    and le: "j * p \<le> length recs"
  shows "\<exists>evs. extract_loop net cfg sd ed p (Suc j) acc h = Some (Inr (acc @ drop (j * p) recs), h @ evs)
           \<and> requested_pages evs = map (\<lambda>k. JInt (int k)) [Suc j ..< length recs div p + 2]"
  using agrees le
proof (induction "length recs - j * p" arbitrary: j acc h rule: less_induct)
  case less
  let ?params = "page_params (Suc j) p sd ed"
  let ?chunk = "take p (drop (j * p) recs)"
  have fetch: "fetch_page_with_retry net cfg ?params = (JList ?chunk, [Request ?params])"
    using cfg less.prems(1) [of j 0] by (intro fetch_first_attempt) (simp_all add: paged_source_page)
  have pg: "requested_pages [Request ?params] = [JInt (int (Suc j))]"
    by (simp add: page_params_lookup)
  consider (empty) "length recs = j * p" | (short) "j * p < length recs" "length recs < j * p + p"
    | (full) "j * p + p \<le> length recs"
    using less.prems(2) by linarith
  then show ?case
  proof cases
    case empty
    then have d: "length recs div p = j" using p by simp
    have "extract_loop net cfg sd ed p (Suc j) acc h = Some (Inr acc, h @ [Request ?params])"
      using empty by (subst extract_loop.simps) (simp add: fetch)
    then show ?thesis
      using empty pg d by auto
  next
    case short
    then have d: "length recs div p = j"
      using less.prems(2) by (intro div_nat_eqI) (simp_all add: mult.commute)
    have len: "length ?chunk < p" "?chunk \<noteq> []" "?chunk = drop (j * p) recs"
      using short by auto
    have "extract_loop net cfg sd ed p (Suc j) acc h = Some (Inr (acc @ ?chunk), h @ [Request ?params])"
      using len by (subst extract_loop.simps) (simp add: fetch py_iter_def)
    then show ?thesis
      using len(3) pg d by auto
  next
    case full
    then have len: "length ?chunk = p" "?chunk \<noteq> []"
      using p by auto
    have step: "extract_loop net cfg sd ed p (Suc j) acc h
        = extract_loop net cfg sd ed p (Suc (Suc j)) (acc @ ?chunk)
            (h @ [Request ?params] @ [Sleep (rate_limit_delay cfg)])"
      using len by (subst extract_loop.simps) (simp add: fetch py_iter_def)
    have dec: "length recs - Suc j * p < length recs - j * p"
      using full p by simp
    have le': "Suc j * p \<le> length recs"
      using full by simp
    have ag': "\<And>k a. Suc j \<le> k \<Longrightarrow> net (page_params (Suc k) p sd ed) a = paged_source recs (page_params (Suc k) p sd ed) a"
      using less.prems(1) by simp
    obtain evs where evs: "extract_loop net cfg sd ed p (Suc (Suc j)) (acc @ ?chunk)
            (h @ [Request ?params] @ [Sleep (rate_limit_delay cfg)])
          = Some (Inr ((acc @ ?chunk) @ drop (Suc j * p) recs),
                  (h @ [Request ?params] @ [Sleep (rate_limit_delay cfg)]) @ evs)"
      and pages: "requested_pages evs = map (\<lambda>k. JInt (int k)) [Suc (Suc j) ..< length recs div p + 2]"
      using less.hyps [OF dec ag' le'] by blast
    have "?chunk @ drop (Suc j * p) recs = drop (j * p) recs"
      using append_take_drop_id [of p "drop (j * p) recs"] by (simp add: add.commute)
    then have res: "(acc @ ?chunk) @ drop (Suc j * p) recs = acc @ drop (j * p) recs"
      by simp
    have "Suc j \<le> length recs div p"
      using le' p by (simp add: less_eq_div_iff_mult_less_eq)
    then have "[Suc j ..< length recs div p + 2] = Suc j # [Suc (Suc j) ..< length recs div p + 2]"
      by (simp add: upt_conv_Cons)
    then have "requested_pages ([Request ?params] @ [Sleep (rate_limit_delay cfg)] @ evs)
        = map (\<lambda>k. JInt (int k)) [Suc j ..< length recs div p + 2]"
      using pages pg by (simp add: requested_pages_append)
    then show ?thesis
      using step evs res by (intro exI [of _ "[Request ?params] @ [Sleep (rate_limit_delay cfg)] @ evs"]) simp
  qed
qed

lemma loader_params_eq:
  "[(''page'', JInt (int page)), (''per_page'', JInt (int bs))] = page_params page bs None None"
  by (simp add: page_params_def)

lemma extract_all_loop_page:
  assumes "fetch_breweries (http (page_params page (batch_size ld) None None)) = Inr (JList items)"
  shows "extract_all_loop http ld page acc h =
     (if items = [] then (acc, h @ [Request (page_params page (batch_size ld) None None)])
      else if length items < batch_size ld \<or> 50 < page + 1
      then (acc @ items, h @ [Request (page_params page (batch_size ld) None None), Sleep (1 / 2)])
      else extract_all_loop http ld (page + 1) (acc @ items)
             (h @ [Request (page_params page (batch_size ld) None None), Sleep (1 / 2)]))"
  by (subst extract_all_loop.simps, simp only: Let_def loader_params_eq assms) (simp add: py_iter_def)

lemma extract_all_loop_failed:
  assumes "fetch_breweries (http (page_params page (batch_size ld) None None)) = Inl e"
  shows "extract_all_loop http ld page acc h =
     (if 50 < page + 1 then (acc, h @ [Request (page_params page (batch_size ld) None None)])
      else extract_all_loop http ld (page + 1) acc
             (h @ [Request (page_params page (batch_size ld) None None)]))"
  by (subst extract_all_loop.simps, simp only: Let_def loader_params_eq assms) simp

lemma extract_all_loop_paged:
  assumes bs: "0 < batch_size ld"
    and agrees: "\<And>k. j \<le> k \<Longrightarrow> http (page_params (Suc k) (batch_size ld) None None)
                    = paged_source recs (page_params (Suc k) (batch_size ld) None None) 0"
    and le: "j * batch_size ld \<le> length recs" and j: "j < 50"
  shows "\<exists>evs. extract_all_loop http ld (Suc j) acc h
             = (acc @ take ((50 - j) * batch_size ld) (drop (j * batch_size ld) recs), h @ evs)
           \<and> requested_pages evs
             = map (\<lambda>k. JInt (int k)) [Suc j ..< Suc (min (length recs div batch_size ld + 1) 50)]"
  using agrees le j
proof (induction "50 - j" arbitrary: j acc h rule: less_induct)
  case less
  let ?bs = "batch_size ld"
  let ?params = "page_params (Suc j) ?bs None None"
  let ?chunk = "take ?bs (drop (j * ?bs) recs)"
  have fetch: "fetch_breweries (http ?params) = Inr (JList ?chunk)"
    using less.prems(1) [of j] by (simp add: paged_source_page fetch_breweries_def raise_for_status_def)
  note unroll = extract_all_loop_page [where http = http and ld = ld and page = "Suc j", OF fetch]
  have pg: "requested_pages [Request ?params] = [JInt (int (Suc j))]"
    by (simp add: page_params_lookup)
  consider (empty) "length recs = j * ?bs" | (short) "j * ?bs < length recs" "length recs < j * ?bs + ?bs"
    | (last) "j * ?bs + ?bs \<le> length recs" "j = 49"
    | (full) "j * ?bs + ?bs \<le> length recs" "j < 49"
    using less.prems(2,3) by linarith
  then show ?case
  proof cases
    case empty
    then have d: "length recs div ?bs = j" using bs by simp
    have "extract_all_loop http ld (Suc j) acc h = (acc, h @ [Request ?params])"
      using empty by (simp add: unroll)
    then show ?thesis
      using empty pg d less.prems(3) by auto
  next
    case short
    then have d: "length recs div ?bs = j"
      by (intro div_nat_eqI) (simp_all add: mult.commute)
    have len: "length ?chunk < ?bs" "?chunk \<noteq> []" "?chunk = drop (j * ?bs) recs"
      using short by auto
    have lt: "length recs - j * ?bs < ?bs"
      using short by linarith
    have big: "take ((50 - j) * ?bs) (drop (j * ?bs) recs) = drop (j * ?bs) recs"
    proof -
      have "1 \<le> 50 - j" using less.prems(3) by simp
      then have "1 * ?bs \<le> (50 - j) * ?bs" by (rule mult_le_mono1)
      then have "?bs \<le> (50 - j) * ?bs" by simp
      then have "length (drop (j * ?bs) recs) \<le> (50 - j) * ?bs"
        using short(2) unfolding length_drop by linarith
      then show ?thesis by (rule take_all)
    qed
    have "extract_all_loop http ld (Suc j) acc h
            = (acc @ ?chunk, h @ [Request ?params] @ [Sleep (1 / 2)])"
      using lt short(1) by (simp add: unroll)
    then show ?thesis
      using len(3) pg d big less.prems(3)
      by (intro exI [of _ "[Request ?params] @ [Sleep (1 / 2)]"]) (simp add: requested_pages_append)
  next
    case last
    then have len: "length ?chunk = ?bs" "?chunk \<noteq> []"
      using bs by auto
    have "50 * ?bs \<le> length recs"
      using last by simp
    then have d: "50 \<le> length recs div ?bs"
      using bs by (simp add: less_eq_div_iff_mult_less_eq)
    have "extract_all_loop http ld (Suc j) acc h
            = (acc @ ?chunk, h @ [Request ?params] @ [Sleep (1 / 2)])"
      using len last(2) by (subst unroll) simp
    then show ?thesis
      using pg d last(2)
      by (intro exI [of _ "[Request ?params] @ [Sleep (1 / 2)]"]) (simp add: requested_pages_append min_def)
  next
    case full
    then have len: "length ?chunk = ?bs" "?chunk \<noteq> []"
      using bs by auto
    have step: "extract_all_loop http ld (Suc j) acc h
        = extract_all_loop http ld (Suc (Suc j)) (acc @ ?chunk) (h @ [Request ?params] @ [Sleep (1 / 2)])"
      using len full(2) by (subst unroll) simp
    have dec: "50 - Suc j < 50 - j" using full(2) by simp
    have le': "Suc j * ?bs \<le> length recs" using full by simp
    have j': "Suc j < 50" using full(2) by simp
    have ag': "\<And>k. Suc j \<le> k \<Longrightarrow> http (page_params (Suc k) ?bs None None)
                    = paged_source recs (page_params (Suc k) ?bs None None) 0"
      using less.prems(1) by simp
    obtain evs where evs: "extract_all_loop http ld (Suc (Suc j)) (acc @ ?chunk)
            (h @ [Request ?params] @ [Sleep (1 / 2)])
          = ((acc @ ?chunk) @ take ((50 - Suc j) * ?bs) (drop (Suc j * ?bs) recs),
             (h @ [Request ?params] @ [Sleep (1 / 2)]) @ evs)"
      and pages: "requested_pages evs
          = map (\<lambda>k. JInt (int k)) [Suc (Suc j) ..< Suc (min (length recs div ?bs + 1) 50)]"
      using less.hyps [OF dec ag' le' j'] by blast
    have "50 - j = Suc (50 - Suc j)"
      using full(2) by linarith
    then have "(50 - j) * ?bs = ?bs + (50 - Suc j) * ?bs"
      by (simp only: mult_Suc)
    then have "take ((50 - j) * ?bs) (drop (j * ?bs) recs)
        = ?chunk @ take ((50 - Suc j) * ?bs) (drop ?bs (drop (j * ?bs) recs))"
      by (simp add: take_add)
    then have res: "(acc @ ?chunk) @ take ((50 - Suc j) * ?bs) (drop (Suc j * ?bs) recs)
        = acc @ take ((50 - j) * ?bs) (drop (j * ?bs) recs)"
      by (simp add: add.commute)
    have "Suc j \<le> length recs div ?bs"
      using le' bs by (simp add: less_eq_div_iff_mult_less_eq)
    then have "Suc j < Suc (min (length recs div ?bs + 1) 50)"
      using j' by simp
    then have "[Suc j ..< Suc (min (length recs div ?bs + 1) 50)]
        = Suc j # [Suc (Suc j) ..< Suc (min (length recs div ?bs + 1) 50)]"
      by (rule upt_conv_Cons)
    then have "requested_pages ([Request ?params] @ [Sleep (1 / 2)] @ evs)
        = map (\<lambda>k. JInt (int k)) [Suc j ..< Suc (min (length recs div ?bs + 1) 50)]"
      using pages pg by (simp add: requested_pages_append del: upt_Suc)
    then show ?thesis
      using step evs res by (intro exI [of _ "[Request ?params] @ [Sleep (1 / 2)] @ evs"]) simp
  qed
qed

lemma extract_all_loop_requests:
  "page \<le> 50 \<Longrightarrow>
     request_count (snd (extract_all_loop http ld page acc h)) + page \<le> request_count h + 51"
proof (induction http ld page acc h rule: extract_all_loop.induct)
  case (1 http ld page all_breweries history)
  let ?params = "[(''page'', JInt (int page)), (''per_page'', JInt (int (batch_size ld)))]"
  show ?case
  proof (cases "fetch_breweries (http ?params)")
    case (Inl e)
    show ?thesis
    proof (cases "50 < page + 1")
      case True
      then show ?thesis
        using Inl "1.prems" by (subst extract_all_loop.simps) (simp add: Let_def request_count_append)
    next
      case False
      then have "request_count (snd (extract_all_loop http ld (page + 1) all_breweries (history @ [Request ?params])))
                   + (page + 1) \<le> request_count (history @ [Request ?params]) + 51"
        using "1.IH"(1) [OF refl refl Inl] by simp
      then show ?thesis
        using Inl False by (subst extract_all_loop.simps) (simp add: Let_def request_count_append)
    qed
  next
    case (Inr breweries)
    show ?thesis
    proof (cases "py_truthy breweries")
      case False
      then show ?thesis
        using Inr "1.prems" by (subst extract_all_loop.simps) (simp add: Let_def request_count_append)
    next
      case True
      show ?thesis
      proof (cases "py_iter breweries")
        case (Inl e)
        show ?thesis
        proof (cases "50 < page + 1")
          case True
          then show ?thesis
            using Inr Inl \<open>py_truthy breweries\<close> "1.prems"
            by (subst extract_all_loop.simps) (simp add: Let_def request_count_append)
        next
          case False
          then have "request_count (snd (extract_all_loop http ld (page + 1) all_breweries (history @ [Request ?params])))
                   + (page + 1) \<le> request_count (history @ [Request ?params]) + 51"
            using "1.IH"(2) [OF refl refl Inr _ Inl] \<open>py_truthy breweries\<close> by simp
          then show ?thesis
            using Inr Inl False \<open>py_truthy breweries\<close>
            by (subst extract_all_loop.simps) (simp add: Let_def request_count_append)
        qed
      next
        case items: (Inr items)
        show ?thesis
        proof (cases "length items < batch_size ld \<or> 50 < page + 1")
          case True
          then show ?thesis
            using Inr items \<open>py_truthy breweries\<close> "1.prems"
            by (subst extract_all_loop.simps) (auto simp: Let_def request_count_append)
        next
          case False
          then have "request_count (snd (extract_all_loop http ld (page + 1) (all_breweries @ items)
                        ((history @ [Request ?params]) @ [Sleep (1 / 2)])))
                   + (page + 1) \<le> request_count ((history @ [Request ?params]) @ [Sleep (1 / 2)]) + 51"
            using "1.IH"(3) [OF refl refl Inr _ items] \<open>py_truthy breweries\<close> by simp
          then show ?thesis
            using Inr items False \<open>py_truthy breweries\<close>
            by (subst extract_all_loop.simps) (simp add: Let_def request_count_append)
        qed
      qed
    qed
  qed
qed

lemma extract_all_breweries_ceiling:
  "request_count (snd (extract_all_breweries http ld)) \<le> 50"
  using extract_all_loop_requests [of 1 http ld "[]" "[]"] by (simp add: extract_all_breweries_def)

lemma extract_async_paged:
  assumes "0 < retry_attempts cfg" and "0 < page_size"
  shows "\<exists>evs. extract_async (paged_source recs) cfg sd ed page_size = Some (Inr recs, evs)
           \<and> requested_pages evs = map (\<lambda>k. JInt (int k)) [1 ..< length recs div page_size + 2]"
  using extract_loop_paged [OF assms, of 0 "paged_source recs" sd ed recs "[]" "[]"]
  by (simp add: extract_async_def)

lemma extract_all_breweries_paged:
  assumes "0 < batch_size ld"
  shows "\<exists>evs. extract_all_breweries (\<lambda>params. paged_source recs params 0) ld
             = (take (50 * batch_size ld) recs, evs)
           \<and> requested_pages evs
             = map (\<lambda>k. JInt (int k)) [1 ..< Suc (min (length recs div batch_size ld + 1) 50)]"
  using extract_all_loop_paged [OF assms, of 0 "\<lambda>params. paged_source recs params 0" recs "[]" "[]"]
  by (simp add: extract_all_breweries_def)

text \<open>
  C1, as the code has it. A mock source holds \<open>N\<close> records and serves them in pages.
  \<^verbatim>\<open>_extract_async\<close> with a positive page size and at least one attempt per page returns
  exactly the \<open>N\<close> records and requests the pages 1 to \<open>N div page_size + 1\<close>, one request
  each: the last request is the one that finds a short or an empty page, so a source whose
  size is a multiple of the page size costs one request more than its number of pages, and
  no ceiling bounds the count. \<^verbatim>\<open>extract_all_breweries\<close> returns the first
  \<open>50 * batch_size\<close> records and requests the pages 1 to \<open>min (N div batch_size + 1) 50\<close>;
  whatever the source answers, it sends at most 50 page requests.
\<close>

theorem paged_collection:
  assumes "0 < retry_attempts cfg" and "0 < page_size" and "0 < batch_size ld"
  shows "(\<exists>evs. extract_async (paged_source recs) cfg sd ed page_size = Some (Inr recs, evs)
            \<and> requested_pages evs = map (\<lambda>k. JInt (int k)) [1 ..< length recs div page_size + 2]
            \<and> length (requested_pages evs) = length recs div page_size + 1)
         \<and> (\<exists>evs. extract_all_breweries (\<lambda>params. paged_source recs params 0) ld
                     = (take (50 * batch_size ld) recs, evs)
            \<and> requested_pages evs
                 = map (\<lambda>k. JInt (int k)) [1 ..< Suc (min (length recs div batch_size ld + 1) 50)]
            \<and> length (requested_pages evs) = min (length recs div batch_size ld + 1) 50
            \<and> length (requested_pages evs) \<le> 50)
         \<and> request_count (snd (extract_all_breweries http ld)) \<le> 50"
proof -
  obtain evs where "extract_async (paged_source recs) cfg sd ed page_size = Some (Inr recs, evs)"
    and "requested_pages evs = map (\<lambda>k. JInt (int k)) [1 ..< length recs div page_size + 2]"
    using extract_async_paged [OF assms(1,2)] by blast
  then have a: "\<exists>evs. extract_async (paged_source recs) cfg sd ed page_size = Some (Inr recs, evs)
            \<and> requested_pages evs = map (\<lambda>k. JInt (int k)) [1 ..< length recs div page_size + 2]
            \<and> length (requested_pages evs) = length recs div page_size + 1"
    by (intro exI [of _ evs]) simp
  obtain evs' where "extract_all_breweries (\<lambda>params. paged_source recs params 0) ld
                     = (take (50 * batch_size ld) recs, evs')"
    and "requested_pages evs'
          = map (\<lambda>k. JInt (int k)) [1 ..< Suc (min (length recs div batch_size ld + 1) 50)]"
    using extract_all_breweries_paged [OF assms(3)] by blast
  then have b: "\<exists>evs. extract_all_breweries (\<lambda>params. paged_source recs params 0) ld
                     = (take (50 * batch_size ld) recs, evs)
            \<and> requested_pages evs
                 = map (\<lambda>k. JInt (int k)) [1 ..< Suc (min (length recs div batch_size ld + 1) 50)]
            \<and> length (requested_pages evs) = min (length recs div batch_size ld + 1) 50
            \<and> length (requested_pages evs) \<le> 50"
    by (intro exI [of _ evs']) simp
  show ?thesis using a b extract_all_breweries_ceiling [of http ld] by blast
qed

theorem paged_collection_witness:
  "map_option fst (extract_async (paged_source nine_records) default_config None None 2)
     = Some (Inr nine_records)
   \<and> map_option (requested_pages \<circ> snd) (extract_async (paged_source nine_records) default_config None None 2)
     = Some [JInt 1, JInt 2, JInt 3, JInt 4, JInt 5]
   \<and> fst (extract_all_breweries (\<lambda>params. paged_source nine_records params 0) small_loader) = nine_records
   \<and> requested_pages (snd (extract_all_breweries (\<lambda>params. paged_source nine_records params 0) small_loader))
     = [JInt 1, JInt 2, JInt 3, JInt 4, JInt 5]"
proof -
  have c: "0 < retry_attempts default_config" by (simp add: default_config_def)
  have p: "(0::nat) < 2" by simp
  have l: "0 < batch_size small_loader" by (simp add: small_loader_def)
  have n: "length nine_records = 9" by (simp add: nine_records_def)
  have pages: "map (\<lambda>k. JInt (int k)) [1 ..< 9 div 2 + 2] = [JInt 1, JInt 2, JInt 3, JInt 4, JInt 5]"
    by (simp add: upt_rec)
  have pages': "map (\<lambda>k. JInt (int k)) [1 ..< Suc (min (9 div 2 + 1) 50)] = [JInt 1, JInt 2, JInt 3, JInt 4, JInt 5]"
    by (simp add: upt_rec)
  have bs: "batch_size small_loader = 2" by (simp add: small_loader_def)
  show ?thesis
    using paged_collection [OF c p l, where recs = nine_records and sd = None and ed = None
        and http = "\<lambda>params. paged_source nine_records params 0"] pages pages'
    by (auto simp: n bs)
qed

text \<open>
  Two records in pages of two cost two requests, not one; 51 records in pages of one cost
  52 requests; of 10001 records the loader returns 10000.
\<close>

theorem paged_collection_counterexample:
  "map_option (length \<circ> requested_pages \<circ> snd)
      (extract_async (paged_source [JInt 1, JInt 2]) default_config None None 2) = Some 2
   \<and> (length [JInt 1, JInt 2] + 2 - 1) div 2 = (1::nat)
   \<and> map_option (length \<circ> requested_pages \<circ> snd)
      (extract_async (paged_source (replicate 51 JNull)) default_config None None 1) = Some 52
   \<and> length (fst (extract_all_breweries (\<lambda>params. paged_source (replicate 10001 JNull) params 0) init_loader))
      = 10000"
proof -
  have c: "0 < retry_attempts default_config" by (simp add: default_config_def)
  have l: "0 < batch_size init_loader" by (simp add: init_loader_def)
  have 1: "map_option (length \<circ> requested_pages \<circ> snd)
      (extract_async (paged_source [JInt 1, JInt 2]) default_config None None 2) = Some 2"
    using extract_async_paged [OF c, of 2 "[JInt 1, JInt 2]" None None] by auto
  have 2: "map_option (length \<circ> requested_pages \<circ> snd)
      (extract_async (paged_source (replicate 51 JNull)) default_config None None 1) = Some 52"
    using extract_async_paged [OF c, of 1 "replicate 51 JNull" None None] by auto
  have 3: "length (fst (extract_all_breweries (\<lambda>params. paged_source (replicate 10001 JNull) params 0) init_loader))
      = 10000"
    using extract_all_breweries_paged [OF l, of "replicate 10001 JNull"] by (auto simp: init_loader_def)
  show ?thesis using 1 2 3 by simp
qed



lemma extract_loop_page:
  assumes "fetch_page_with_retry net cfg (page_params page page_size sd ed) = (JList items, evs)"
  shows "extract_loop net cfg sd ed page_size page acc h =
     (if items = [] then Some (Inr acc, h @ evs)
      else if length items < page_size then Some (Inr (acc @ items), h @ evs)
      else extract_loop net cfg sd ed page_size (page + 1) (acc @ items)
             (h @ evs @ [Sleep (rate_limit_delay cfg)]))"
  by (subst extract_loop.simps, simp only: assms) (simp add: py_iter_def)

lemma extract_loop_no_data:
  assumes "fetch_page_with_retry net cfg (page_params page page_size sd ed) = (JList [], evs)"
  shows "extract_loop net cfg sd ed page_size page acc h = Some (Inr acc, h @ evs)"
  by (subst extract_loop.simps) (simp add: assms)





lemma with_page_other:
  "page \<noteq> bad \<Longrightarrow> with_page bad f net (page_params page p sd ed) a = net (page_params page p sd ed) a"
  by (simp add: with_page_def page_params_lookup)

lemma with_page_bad: "with_page bad f net (page_params bad p sd ed) a = f"
  by (simp add: with_page_def page_params_lookup)

lemma failed_attempt_result:
  assumes "failed_outcome f"
  shows "attempt_result f a = Inr [] \<or> attempt_result f a = Inr [Sleep (2 ^ a)]"
  using assms by (auto simp: failed_outcome_def attempt_result_def raise_for_status_def split: http_outcome.splits)

lemma failed_fetch_breweries:
  assumes "failed_outcome f"
  shows "\<exists>e. fetch_breweries f = Inl e"
  using assms by (auto simp: failed_outcome_def fetch_breweries_def split: http_outcome.splits)

lemma fetch_attempts_failed:
  assumes "\<And>a. failed_outcome (net params a)"
  shows "\<exists>evs. fetch_attempts net retries params attempt remaining = (JList [], evs)
           \<and> request_count evs = remaining
           \<and> requested_pages evs = replicate remaining (dict_get params ''page'' JNull)"
proof (induction remaining arbitrary: attempt)
  case 0
  then show ?case by simp
next
  case (Suc remaining)
  obtain evs where evs: "fetch_attempts net retries params (Suc attempt) remaining = (JList [], evs)"
    and cnt: "request_count evs = remaining"
    and pgs: "requested_pages evs = replicate remaining (dict_get params ''page'' JNull)"
    using Suc.IH [of "Suc attempt"] by blast
  let ?backoff = "if Suc attempt < retries then [Sleep (2 ^ attempt)] else []"
  consider (plain) "attempt_result (net params attempt) attempt = Inr []"
    | (limited) "attempt_result (net params attempt) attempt = Inr [Sleep (2 ^ attempt)]"
    using failed_attempt_result [OF assms] by blast
  then show ?case
  proof cases
    case plain
    then have "fetch_attempts net retries params attempt (Suc remaining)
          = (JList [], Request params # ?backoff @ evs)"
      by (simp add: evs)
    moreover have "request_count (Request params # ?backoff @ evs) = Suc remaining"
      by (simp add: request_count_append cnt)
    moreover have "requested_pages (Request params # ?backoff @ evs)
          = replicate (Suc remaining) (dict_get params ''page'' JNull)"
      by (simp add: requested_pages_append pgs)
    ultimately show ?thesis by blast
  next
    case limited
    then have "fetch_attempts net retries params attempt (Suc remaining)
          = (JList [], Request params # [Sleep (2 ^ attempt)] @ ?backoff @ evs)"
      by (simp add: evs)
    moreover have "request_count (Request params # [Sleep (2 ^ attempt)] @ ?backoff @ evs) = Suc remaining"
      by (simp add: request_count_append cnt)
    moreover have "requested_pages (Request params # [Sleep (2 ^ attempt)] @ ?backoff @ evs)
          = replicate (Suc remaining) (dict_get params ''page'' JNull)"
      by (simp add: requested_pages_append pgs)
    ultimately show ?thesis by blast
  qed
qed

lemma extract_async_failed_third_page:
  assumes f: "failed_outcome f" and p: "0 < p" and cfg: "0 < retry_attempts cfg"
    and n: "2 * p \<le> length recs"
  shows "\<exists>evs. extract_async (with_page 3 f (paged_source recs)) cfg sd ed p
             = Some (Inr (take (2 * p) recs), evs)
           \<and> requested_pages evs = [JInt 1, JInt 2] @ replicate (retry_attempts cfg) (JInt 3)"
proof -
  let ?net = "with_page 3 f (paged_source recs)"
  let ?c1 = "take p (drop (0 * p) recs)"
  let ?c2 = "take p (drop (Suc 0 * p) recs)"
  let ?q1 = "page_params (Suc 0) p sd ed"
  let ?q2 = "page_params (Suc (Suc 0)) p sd ed"
  let ?q3 = "page_params 3 p sd ed"
  let ?d = "Sleep (rate_limit_delay cfg)"
  have f1: "fetch_page_with_retry ?net cfg ?q1 = (JList ?c1, [Request ?q1])"
    using cfg by (rule fetch_first_attempt) (simp add: with_page_other paged_source_page)
  have f2: "fetch_page_with_retry ?net cfg ?q2 = (JList ?c2, [Request ?q2])"
    using cfg by (rule fetch_first_attempt) (simp add: with_page_other paged_source_page)
  have l1: "length ?c1 = p" "?c1 \<noteq> []" and l2: "length ?c2 = p" "?c2 \<noteq> []"
    using n p by auto
  have s1: "extract_loop ?net cfg sd ed p (Suc 0) [] []
          = extract_loop ?net cfg sd ed p (Suc (Suc 0)) ?c1 [Request ?q1, ?d]"
    using l1 by (subst extract_loop_page [where net = ?net and cfg = cfg and page = "Suc 0", OF f1]) simp
  have s2: "extract_loop ?net cfg sd ed p (Suc (Suc 0)) ?c1 [Request ?q1, ?d]
          = extract_loop ?net cfg sd ed p 3 (?c1 @ ?c2) [Request ?q1, ?d, Request ?q2, ?d]"
    using l2 by (subst extract_loop_page [where net = ?net and cfg = cfg and page = "Suc (Suc 0)", OF f2])
      (simp add: numeral_3_eq_3)
  have bad: "\<And>a. failed_outcome (?net ?q3 a)"
    using f by (simp add: with_page_bad [where bad = 3, simplified])
  obtain evs where evs: "fetch_attempts ?net (retry_attempts cfg) ?q3 0 (retry_attempts cfg) = (JList [], evs)"
    and pgs: "requested_pages evs = replicate (retry_attempts cfg) (dict_get ?q3 ''page'' JNull)"
    using fetch_attempts_failed [of ?net ?q3 "retry_attempts cfg" 0 "retry_attempts cfg", OF bad] by blast
  have f3: "fetch_page_with_retry ?net cfg ?q3 = (JList [], evs)"
    using evs by (simp add: fetch_page_with_retry_def)
  have s3: "extract_loop ?net cfg sd ed p 3 (?c1 @ ?c2) [Request ?q1, ?d, Request ?q2, ?d]
          = Some (Inr (?c1 @ ?c2), [Request ?q1, ?d, Request ?q2, ?d] @ evs)"
    by (rule extract_loop_no_data) (rule f3)
  have acc: "?c1 @ ?c2 = take (2 * p) recs"
    using take_add [of p p recs] by (simp add: mult_2)
  have "extract_async ?net cfg sd ed p = Some (Inr (?c1 @ ?c2), [Request ?q1, ?d, Request ?q2, ?d] @ evs)"
    unfolding extract_async_def One_nat_def s1 s2 s3 ..
  then have "extract_async ?net cfg sd ed p
      = Some (Inr (take (2 * p) recs), [Request ?q1, ?d, Request ?q2, ?d] @ evs)"
    by (simp only: acc)
  moreover have "requested_pages ([Request ?q1, ?d, Request ?q2, ?d] @ evs)
      = [JInt 1, JInt 2] @ replicate (retry_attempts cfg) (JInt 3)"
    by (simp add: requested_pages_append pgs page_params_lookup)
  ultimately show ?thesis by blast
qed

lemma extract_all_breweries_failed_third_page:
  assumes f: "failed_outcome f" and p: "0 < batch_size ld"
    and lo: "4 * batch_size ld < length recs" and hi: "length recs \<le> 5 * batch_size ld"
  shows "\<exists>evs. extract_all_breweries (\<lambda>params. with_page 3 f (paged_source recs) params 0) ld
             = (take (2 * batch_size ld) recs @ drop (3 * batch_size ld) recs, evs)
           \<and> requested_pages evs = map (\<lambda>k. JInt (int k)) [1 ..< length recs div batch_size ld + 2]"
proof -
  let ?p = "batch_size ld"
  let ?http = "\<lambda>params. with_page 3 f (paged_source recs) params 0"
  let ?c1 = "take ?p (drop (0 * ?p) recs)"
  let ?c2 = "take ?p (drop (Suc 0 * ?p) recs)"
  let ?q1 = "page_params (Suc 0) ?p None None"
  let ?q2 = "page_params (Suc (Suc 0)) ?p None None"
  let ?q3 = "page_params 3 ?p None None"
  let ?d = "Sleep (1 / 2)"
  have f1: "fetch_breweries (?http ?q1) = Inr (JList ?c1)"
    by (simp add: with_page_other paged_source_page fetch_breweries_def raise_for_status_def)
  have f2: "fetch_breweries (?http ?q2) = Inr (JList ?c2)"
    by (simp add: with_page_other paged_source_page fetch_breweries_def raise_for_status_def)
  obtain e where f3: "fetch_breweries (?http ?q3) = Inl e"
    using failed_fetch_breweries [OF f] by (auto simp: with_page_bad [where bad = 3, simplified])
  have l1: "length ?c1 = ?p" "?c1 \<noteq> []" and l2: "length ?c2 = ?p" "?c2 \<noteq> []"
    using lo p by auto
  have s1: "extract_all_loop ?http ld (Suc 0) [] []
          = extract_all_loop ?http ld (Suc (Suc 0)) ?c1 [Request ?q1, ?d]"
    using l1 by (subst extract_all_loop_page [where http = ?http and ld = ld and page = "Suc 0", OF f1]) simp
  have s2: "extract_all_loop ?http ld (Suc (Suc 0)) ?c1 [Request ?q1, ?d]
          = extract_all_loop ?http ld 3 (?c1 @ ?c2) [Request ?q1, ?d, Request ?q2, ?d]"
    using l2 by (subst extract_all_loop_page [where http = ?http and ld = ld and page = "Suc (Suc 0)", OF f2])
      (simp add: numeral_3_eq_3)
  have s3: "extract_all_loop ?http ld 3 (?c1 @ ?c2) [Request ?q1, ?d, Request ?q2, ?d]
          = extract_all_loop ?http ld (Suc 3) (?c1 @ ?c2) [Request ?q1, ?d, Request ?q2, ?d, Request ?q3]"
    by (subst extract_all_loop_failed [where http = ?http and ld = ld and page = 3, OF f3]) simp
  have ag: "\<And>k. 3 \<le> k \<Longrightarrow> ?http (page_params (Suc k) ?p None None)
                    = paged_source recs (page_params (Suc k) ?p None None) 0"
    by (simp add: with_page_other)
  have le3: "3 * ?p \<le> length recs" using lo by simp
  obtain evs where evs: "extract_all_loop ?http ld (Suc 3) (?c1 @ ?c2)
            [Request ?q1, ?d, Request ?q2, ?d, Request ?q3]
          = ((?c1 @ ?c2) @ take ((50 - 3) * ?p) (drop (3 * ?p) recs),
             [Request ?q1, ?d, Request ?q2, ?d, Request ?q3] @ evs)"
    and pgs: "requested_pages evs = map (\<lambda>k. JInt (int k)) [Suc 3 ..< Suc (min (length recs div ?p + 1) 50)]"
    using extract_all_loop_paged [of ld 3 ?http recs "?c1 @ ?c2"
        "[Request ?q1, ?d, Request ?q2, ?d, Request ?q3]", OF p ag le3]
    by auto
  have acc: "?c1 @ ?c2 = take (2 * ?p) recs"
    using take_add [of ?p ?p recs] by (simp add: mult_2)
  have "length (drop (3 * ?p) recs) \<le> (50 - 3) * ?p"
    using hi by simp
  then have rest: "take ((50 - 3) * ?p) (drop (3 * ?p) recs) = drop (3 * ?p) recs"
    by (rule take_all)
  have d4: "4 \<le> length recs div ?p"
    using lo p by (simp add: less_eq_div_iff_mult_less_eq)
  have d5: "length recs div ?p \<le> 5"
  proof -
    have "length recs div ?p \<le> (5 * ?p) div ?p" using hi by (rule div_le_mono)
    then show ?thesis using p by simp
  qed
  have m: "Suc (min (length recs div ?p + 1) 50) = length recs div ?p + 2"
    using d5 by simp
  have pgs': "requested_pages evs = map (\<lambda>k. JInt (int k)) [Suc 3 ..< length recs div ?p + 2]"
    using pgs by (simp only: m)
  have run: "extract_all_breweries ?http ld
      = ((?c1 @ ?c2) @ take ((50 - 3) * ?p) (drop (3 * ?p) recs),
         [Request ?q1, ?d, Request ?q2, ?d, Request ?q3] @ evs)"
    unfolding extract_all_breweries_def One_nat_def s1 s2 s3 evs ..
  have res: "extract_all_breweries ?http ld
      = (take (2 * ?p) recs @ drop (3 * ?p) recs,
         [Request ?q1, ?d, Request ?q2, ?d, Request ?q3] @ evs)"
    using run by (simp only: acc rest)
  have "[1 ..< length recs div ?p + 2] = [1, 2, 3] @ [Suc 3 ..< length recs div ?p + 2]"
  proof -
    obtain m where m: "length recs div ?p + 2 = 4 + m"
      using d4 by (metis add.commute le_add2 le_iff_add trans_le_add1)
    have "[1 ..< 4 + m] = [1 ..< 4] @ [4 ..< 4 + m]"
      by (rule upt_add_eq_append) simp
    then have "[1 ..< length recs div ?p + 2] = [1 ..< 4] @ [4 ..< length recs div ?p + 2]"
      by (simp only: m)
    moreover have "[1 ..< 4] = [1, 2, 3 :: nat]" by (simp add: upt_rec)
    ultimately show ?thesis by simp
  qed
  then have "requested_pages ([Request ?q1, ?d, Request ?q2, ?d, Request ?q3] @ evs)
      = map (\<lambda>k. JInt (int k)) [1 ..< length recs div ?p + 2]"
    by (simp add: requested_pages_append pgs' page_params_lookup del: upt_Suc)
  then show ?thesis using res by blast
qed

text \<open>
  C2, as the code has it. A source of five pages answers page 3 with a failure at every
  attempt and the other pages with their records. \<^verbatim>\<open>extract_all_breweries\<close> moves on to
  the next page after the failure and returns the records of the pages 1, 2, 4 and 5; it
  raises nothing. \<^verbatim>\<open>_extract_async\<close> gets the empty list from the failed page after all
  attempts, takes it for the end of the data and returns the records of the pages 1 and 2
  only; it raises nothing either, and the pages 4 and 5 are never requested.
\<close>

theorem failed_page_policy:
  assumes "failed_outcome f" and "0 < retry_attempts cfg" and "0 < batch_size ld"
    and "4 * batch_size ld < length recs" and "length recs \<le> 5 * batch_size ld"
  shows "(\<exists>evs. extract_all_breweries (\<lambda>params. with_page 3 f (paged_source recs) params 0) ld
             = (take (2 * batch_size ld) recs @ drop (3 * batch_size ld) recs, evs)
           \<and> requested_pages evs = map (\<lambda>k. JInt (int k)) [1 ..< length recs div batch_size ld + 2])
         \<and> (\<exists>evs. extract_async (with_page 3 f (paged_source recs)) cfg sd ed (batch_size ld)
             = Some (Inr (take (2 * batch_size ld) recs), evs)
           \<and> requested_pages evs = [JInt 1, JInt 2] @ replicate (retry_attempts cfg) (JInt 3))"
proof
  show "\<exists>evs. extract_all_breweries (\<lambda>params. with_page 3 f (paged_source recs) params 0) ld
             = (take (2 * batch_size ld) recs @ drop (3 * batch_size ld) recs, evs)
           \<and> requested_pages evs = map (\<lambda>k. JInt (int k)) [1 ..< length recs div batch_size ld + 2]"
    using assms(1,3,4,5) by (rule extract_all_breweries_failed_third_page)
  have "2 * batch_size ld \<le> length recs"
    using assms(4) by simp
  with assms(1,3,2)
  show "\<exists>evs. extract_async (with_page 3 f (paged_source recs)) cfg sd ed (batch_size ld)
             = Some (Inr (take (2 * batch_size ld) recs), evs)
           \<and> requested_pages evs = [JInt 1, JInt 2] @ replicate (retry_attempts cfg) (JInt 3)"
    by (rule extract_async_failed_third_page)
qed

theorem failed_page_policy_witness:
  "fst (extract_all_breweries (\<lambda>params. with_page 3 ConnectionError (paged_source nine_records) params 0)
         small_loader)
     = map JInt [1, 2, 3, 4, 7, 8, 9]
   \<and> requested_pages (snd (extract_all_breweries
         (\<lambda>params. with_page 3 ConnectionError (paged_source nine_records) params 0) small_loader))
     = [JInt 1, JInt 2, JInt 3, JInt 4, JInt 5]
   \<and> map_option fst (extract_async (with_page 3 ConnectionError (paged_source nine_records))
         default_config None None 2)
     = Some (Inr (map JInt [1, 2, 3, 4]))
   \<and> map_option (requested_pages \<circ> snd) (extract_async (with_page 3 ConnectionError (paged_source nine_records))
         default_config None None 2)
     = Some [JInt 1, JInt 2, JInt 3, JInt 3, JInt 3]"
proof -
  have f: "failed_outcome ConnectionError" by (simp add: failed_outcome_def)
  have c: "0 < retry_attempts default_config" by (simp add: default_config_def)
  have bs: "batch_size small_loader = 2" by (simp add: small_loader_def)
  have l: "0 < batch_size small_loader" by (simp add: bs)
  have n: "length nine_records = 9" by (simp add: nine_records_def)
  have lo: "4 * batch_size small_loader < length nine_records" by (simp add: bs n)
  have hi: "length nine_records \<le> 5 * batch_size small_loader" by (simp add: bs n)
  have pages: "map (\<lambda>k. JInt (int k)) [1 ..< 9 div 2 + 2] = [JInt 1, JInt 2, JInt 3, JInt 4, JInt 5]"
    by (simp add: upt_rec)
  have recs: "take (2 * 2) nine_records @ drop (3 * 2) nine_records = map JInt [1, 2, 3, 4, 7, 8, 9]"
    "take (2 * 2) nine_records = map JInt [1, 2, 3, 4]"
    by (simp_all add: nine_records_def)
  have r: "replicate (retry_attempts default_config) (JInt 3) = [JInt 3, JInt 3, JInt 3]"
    by (simp add: default_config_def numeral_3_eq_3)
  show ?thesis
    using failed_page_policy [OF f c l lo hi, of None None] pages recs r
    by (auto simp: bs n)
qed

text \<open>
  Nine records in pages of two, page 3 unreachable: \<^verbatim>\<open>_extract_async\<close> returns the first
  four records, not the seven of the pages 1, 2, 4 and 5.
\<close>

theorem failed_page_policy_counterexample:
  "map_option fst (extract_async (with_page 3 ConnectionError (paged_source nine_records))
         default_config None None 2)
     = Some (Inr (map JInt [1, 2, 3, 4]))
   \<and> map JInt [1, 2, 3, 4] \<noteq> map JInt [1, 2, 3, 4, 7, 8, 9]"
proof -
  have f: "failed_outcome ConnectionError" by (simp add: failed_outcome_def)
  have c: "0 < retry_attempts default_config" by (simp add: default_config_def)
  have n: "2 * 2 \<le> length nine_records" by (simp add: nine_records_def)
  have recs: "take (2 * 2) nine_records = map JInt [1, 2, 3, 4]"
    by (simp add: nine_records_def)
  show ?thesis
    using extract_async_failed_third_page [OF f _ c n, of None None] recs by auto
qed

end
